theory Spec2Isabelle
  imports Complex_Main
begin

section \<open>Data model: labels, dtypes, cells, tables and arrays\<close>

text \<open>
  A column label of a pandas DataFrame is a string or an integer (a frame built from a
  bare array gets the labels 0, 1, ...). A dtype is the declared type of a column or of
  an array. A cell is one stored value; only the distinctions that the validators look at
  are kept: finite numbers, NaN, the infinities, None, text and complex numbers.
  A text cell stands for text that is not the spelling of a number. The dtypes are the
  four that the code paths below tell apart: integer, float, complex and object.
\<close>

datatype label = LStr string | LInt int

datatype dtype = Int64 | Float64 | Complex128 | Object

datatype cell =
    CNum rat
  | CNaN
  | CPosInf
  | CNegInf
  | CNone
  | CStr string
  | CComplex rat rat

record column =
  cname :: label
  ctype :: dtype
  cells :: "cell list"

text \<open>A pandas DataFrame: a row index and an ordered list of labelled, typed columns.\<close>

record frame =
  findex :: "label list"
  fcols :: "column list"

text \<open>A two-dimensional numpy array, stored column by column, with its row count.\<close>

record ndarray =
  nd_dtype :: dtype
  nd_rows :: nat
  nd_cols :: "cell list list"

text \<open>
  The objects a caller can pass as \<open>X\<close>: a pandas DataFrame, a dense two-dimensional
  numpy array, or a scipy sparse matrix (of which only dtype and shape matter here).
\<close>

datatype input = DataFrame frame | NdArray ndarray | SparseMatrix ndarray

definition frame_columns :: "frame \<Rightarrow> label list" where
  "frame_columns f = map cname (fcols f)"

definition frame_dtypes :: "frame \<Rightarrow> (label \<times> dtype) list" where
  "frame_dtypes f = map (\<lambda>c. (cname c, ctype c)) (fcols f)"

definition n_rows :: "frame \<Rightarrow> nat" where
  "n_rows f = length (findex f)"

definition range_index :: "nat \<Rightarrow> label list" where
  "range_index n = map (\<lambda>i. LInt (int i)) [0..<n]"

text \<open>Every column of a well-formed frame has one cell per row.\<close>

definition wf_frame :: "frame \<Rightarrow> bool" where
  "wf_frame f = list_all (\<lambda>c. length (cells c) = length (findex f)) (fcols f)"

section \<open>Errors\<close>

text \<open>
  Every \<open>raise\<close> of the source is a value. The Python class is the outer constructor,
  the message (with the data spliced into it) the inner one.
\<close>

datatype value_error =
    ComplexNotSupported
  | SparseNotSupported string
  | CouldNotDropGroups "label list"
  | XHasNaN
  | InputNotFinite
  | CouldNotConvert
  | TooFewSamples nat nat
  | TooFewFeatures nat nat
  | DropEmpty "label list"
  | SelectLengthZero
  | TypesEmpty
  | ExpectedUniqueColumns
  | ColumnsNotEqual
  | DtypesNotEqual
  | NotIdenticallyLabeled
  | IncludeExcludeEmpty
  | IncludeExcludeOverlap

datatype type_error = NotPandasDataFrame | NotSupportedFrame | SparseNotAccepted | ComplexToFloat

datatype error =
    ValueError value_error
  | TypeError type_error
  | KeyError "label list"
  | IndexError
  | AssertionError
  | OverflowError
  | AttributeError string
  | NotFittedError string

section \<open>The collaborators: dataframe shim, dtype selection, fittedness check\<close>

text \<open>
  Modelled from the spec: \<open>as_list\<close> of \<open>sklego.common\<close> is not among the sources.
  The spec has it normalise a single name or a sequence of names to a list.
\<close>

datatype colspec = Single label | Many "label list"

fun as_list :: "colspec \<Rightarrow> label list" where
  "as_list (Single c) = [c]"
| "as_list (Many cs) = cs"

text \<open>Python truthiness of the constructor argument, as \<open>if self.columns:\<close> tests it.\<close>

fun truthy :: "colspec \<Rightarrow> bool" where
  "truthy (Single (LStr s)) = (s \<noteq> [])"
| "truthy (Single (LInt i)) = (i \<noteq> 0)"
| "truthy (Many cs) = (cs \<noteq> [])"

text \<open>
  The dataframe shim (narwhals). \<open>from_native\<close> accepts a dataframe whose column
  labels are pairwise distinct; it raises ValueError ("Expected unique column names") on
  a frame with a repeated label and TypeError on anything that is no dataframe.
  \<open>to_native\<close> hands the frame back. \<open>select\<close> takes column names, which are
  strings: an integer is an AssertionError, a name the frame does not have a KeyError, a
  name given twice a ValueError; otherwise it keeps the named columns in the order
  asked. \<open>drop\<close> removes the named columns and fails on a name the frame does not have.
\<close>

fun from_native :: "input \<Rightarrow> error + frame" where
  "from_native (DataFrame f) =
     (if distinct (frame_columns f) then Inr f else Inl (ValueError ExpectedUniqueColumns))"
| "from_native (NdArray a) = Inl (TypeError NotSupportedFrame)"
| "from_native (SparseMatrix a) = Inl (TypeError NotSupportedFrame)"

definition to_native :: "frame \<Rightarrow> input" where
  "to_native f = DataFrame f"

fun is_name :: "label \<Rightarrow> bool" where
  "is_name (LStr s) = True"
| "is_name (LInt i) = False"

definition missing_labels :: "label list \<Rightarrow> frame \<Rightarrow> label list" where
  "missing_labels cs f = filter (\<lambda>c. c \<notin> set (frame_columns f)) (remdups cs)"

definition take_columns :: "label list \<Rightarrow> frame \<Rightarrow> frame" where
  "take_columns cs f = f\<lparr>fcols := concat (map (\<lambda>c. filter (\<lambda>k. cname k = c) (fcols f)) cs)\<rparr>"

definition remove_columns :: "label list \<Rightarrow> frame \<Rightarrow> frame" where
  "remove_columns cs f = f\<lparr>fcols := filter (\<lambda>k. cname k \<notin> set cs) (fcols f)\<rparr>"

definition nw_select :: "frame \<Rightarrow> label list \<Rightarrow> error + frame" where
  "nw_select f cs =
     (if \<not> list_all is_name cs then Inl AssertionError
      else if missing_labels cs f \<noteq> [] then Inl (KeyError (missing_labels cs f))
      else if \<not> distinct cs then Inl (ValueError ExpectedUniqueColumns)
      else Inr (take_columns cs f))"

definition nw_drop :: "frame \<Rightarrow> label list \<Rightarrow> error + frame" where
  "nw_drop f cs =
     (if missing_labels cs f \<noteq> [] then Inl (KeyError (missing_labels cs f))
      else Inr (remove_columns cs f))"

text \<open>
  \<open>DataFrame.select_dtypes\<close>: a type specification is the umbrella \<open>"number"\<close>
  (integer, float and complex columns) or one exact dtype. \<open>None\<close> is
  the empty list, a scalar the one-element list. Both empty, or a specification on both
  sides, is a ValueError.
\<close>

datatype typespec = TNumber | TExact dtype

fun matches :: "typespec \<Rightarrow> dtype \<Rightarrow> bool" where
  "matches TNumber d = (d = Int64 \<or> d = Float64 \<or> d = Complex128)"
| "matches (TExact e) d = (d = e)"

definition dtype_selected :: "typespec list \<Rightarrow> typespec list \<Rightarrow> dtype \<Rightarrow> bool" where
  "dtype_selected inc exc d =
     ((inc = [] \<or> list_ex (\<lambda>t. matches t d) inc) \<and> \<not> list_ex (\<lambda>t. matches t d) exc)"

definition select_dtypes :: "typespec list \<Rightarrow> typespec list \<Rightarrow> frame \<Rightarrow> error + frame" where
  "select_dtypes inc exc f =
     (if inc = [] \<and> exc = [] then Inl (ValueError IncludeExcludeEmpty)
      else if list_ex (\<lambda>t. t \<in> set exc) inc then Inl (ValueError IncludeExcludeOverlap)
      else Inr (f\<lparr>fcols := filter (\<lambda>k. dtype_selected inc exc (ctype k)) (fcols f)\<rparr>))"

text \<open>
  \<open>check_is_fitted(self, attributes)\<close>: NotFittedError unless every listed attribute
  is present on the instance.
\<close>

definition check_is_fitted :: "string \<Rightarrow> bool list \<Rightarrow> error option" where
  "check_is_fitted cls present =
     (if list_all (\<lambda>b. b) present then None else Some (NotFittedError cls))"

section \<open>ColumnDropper\<close>

text \<open>
  The instance attributes of each class are the fields of a record. An attribute that
  \<open>fit\<close> creates (\<open>columns_\<close>, \<open>feature_names_\<close>, \<open>X_dtypes_\<close> in the source) is
  an option, \<open>None\<close> while the attribute is absent; the fields are named
  \<open>fitted_columns\<close>, \<open>feature_names\<close> and \<open>X_dtypes\<close>. A method returns its
  result, or the error it raised, together with the instance as the call left it.
\<close>

record column_dropper =
  cd_columns :: colspec
  cd_fitted_columns :: "label list option"
  cd_feature_names :: "label list option"

definition check_column_names :: "label list \<Rightarrow> frame \<Rightarrow> error option" where
  "check_column_names fitted_columns X =
     (let non_existent_columns = missing_labels fitted_columns X
      in if length non_existent_columns > 0 then Some (KeyError non_existent_columns)
         else None)"

definition cd_check_column_length :: "label list \<Rightarrow> label list \<Rightarrow> error option" where
  "cd_check_column_length fitted_columns feature_names =
     (if length feature_names = 0 then Some (ValueError (DropEmpty fitted_columns)) else None)"

text \<open>
  \<open>fit\<close> assigns \<open>self.columns_\<close> first, then validates, then assigns
  \<open>self.feature_names_\<close>,
  then checks that something is left. The instance is returned with whatever was
  assigned before a raise.
\<close>

definition ColumnDropper_fit :: "column_dropper \<Rightarrow> input \<Rightarrow> (error + unit) \<times> column_dropper" where
  "ColumnDropper_fit self X =
     (let fitted_columns = as_list (cd_columns self);
          self1 = self\<lparr>cd_fitted_columns := Some fitted_columns\<rparr>
      in case from_native X of
           Inl e \<Rightarrow> (Inl e, self1)
         | Inr Xf \<Rightarrow>
             (case check_column_names fitted_columns Xf of
                Some e \<Rightarrow> (Inl e, self1)
              | None \<Rightarrow>
                  (let feature_names = filter (\<lambda>x. x \<notin> set fitted_columns) (frame_columns Xf);
                       self2 = self1\<lparr>cd_feature_names := Some feature_names\<rparr>
                   in case cd_check_column_length fitted_columns feature_names of
                        Some e \<Rightarrow> (Inl e, self2)
                      | None \<Rightarrow> (Inr (), self2))))"

definition ColumnDropper_transform :: "column_dropper \<Rightarrow> input \<Rightarrow> (error + input) \<times> column_dropper" where
  "ColumnDropper_transform self X =
     (case check_is_fitted ''ColumnDropper'' [cd_feature_names self \<noteq> None] of
        Some e \<Rightarrow> (Inl e, self)
      | None \<Rightarrow>
          (case from_native X of
             Inl e \<Rightarrow> (Inl e, self)
           | Inr Xf \<Rightarrow>
               (case cd_fitted_columns self of
                  None \<Rightarrow> (Inl (AttributeError ''columns_''), self)
                | Some fitted_columns \<Rightarrow>
                    if fitted_columns \<noteq> [] then
                      (case nw_drop Xf fitted_columns of
                         Inl e \<Rightarrow> (Inl e, self)
                       | Inr r \<Rightarrow> (Inr (to_native r), self))
                    else (Inr (to_native Xf), self))))"

section \<open>PandasTypeSelector\<close>

record type_selector =
  ts_include :: "typespec list"
  ts_exclude :: "typespec list"
  ts_X_dtypes :: "(label \<times> dtype) list option"
  ts_feature_names :: "label list option"

fun check_X_for_type :: "input \<Rightarrow> error option" where
  "check_X_for_type (DataFrame f) = None"
| "check_X_for_type (NdArray a) = Some (TypeError NotPandasDataFrame)"
| "check_X_for_type (SparseMatrix a) = Some (TypeError NotPandasDataFrame)"

text \<open>\<open>X.dtypes\<close>: only a DataFrame has the attribute.\<close>

fun dtypes_of :: "input \<Rightarrow> error + (label \<times> dtype) list" where
  "dtypes_of (DataFrame f) = Inr (frame_dtypes f)"
| "dtypes_of (NdArray a) = Inl (AttributeError ''dtypes'')"
| "dtypes_of (SparseMatrix a) = Inl (AttributeError ''dtypes'')"

text \<open>
  \<open>(a != b).any()\<close> on two dtype Series: pandas raises ValueError unless both carry
  the same labels in the same order, and compares entry by entry otherwise.
\<close>

definition series_ne_any :: "(label \<times> dtype) list \<Rightarrow> (label \<times> dtype) list \<Rightarrow> error + bool" where
  "series_ne_any a b =
     (if map fst a \<noteq> map fst b then Inl (ValueError NotIdenticallyLabeled)
      else Inr (list_ex (\<lambda>(x, y). snd x \<noteq> snd y) (zip a b)))"

text \<open>
  The body of the \<open>try\<close> block of \<open>transform\<close>, with the errors as they are raised
  there, and its \<open>except ValueError\<close> clause, which replaces every ValueError by
  "Columns were not equal during fit and transform" and lets any other error pass.
\<close>

definition compare_dtypes :: "(label \<times> dtype) list \<Rightarrow> input \<Rightarrow> error option" where
  "compare_dtypes X_dtypes X =
     (case dtypes_of X of
        Inl e \<Rightarrow> Some e
      | Inr dts \<Rightarrow>
          (case series_ne_any X_dtypes dts of
             Inl e \<Rightarrow> Some e
           | Inr True \<Rightarrow> Some (ValueError DtypesNotEqual)
           | Inr False \<Rightarrow> None))"

fun except_value_error :: "error \<Rightarrow> error" where
  "except_value_error (ValueError m) = ValueError ColumnsNotEqual"
| "except_value_error e = e"

definition PandasTypeSelector_fit :: "type_selector \<Rightarrow> input \<Rightarrow> (error + unit) \<times> type_selector" where
  "PandasTypeSelector_fit self X =
     (case check_X_for_type X of
        Some e \<Rightarrow> (Inl e, self)
      | None \<Rightarrow>
          (case X of
             DataFrame f \<Rightarrow>
               (let self1 = self\<lparr>ts_X_dtypes := Some (frame_dtypes f)\<rparr>
                in case select_dtypes (ts_include self) (ts_exclude self) f of
                     Inl e \<Rightarrow> (Inl e, self1)
                   | Inr sel \<Rightarrow>
                       (let feature_names = frame_columns sel;
                            self2 = self1\<lparr>ts_feature_names := Some feature_names\<rparr>
                        in if length feature_names = 0 then (Inl (ValueError TypesEmpty), self2)
                           else (Inr (), self2)))
           | _ \<Rightarrow> (Inl (TypeError NotPandasDataFrame), self)))"

text \<open>
  \<open>transform\<close>: the fittedness check, then the dtype comparison inside
  \<open>try ... except ValueError\<close>, then the type check of \<open>X\<close>, then the selection
  by dtype.
\<close>

definition PandasTypeSelector_transform :: "type_selector \<Rightarrow> input \<Rightarrow> (error + frame) \<times> type_selector" where
  "PandasTypeSelector_transform self X =
     (case check_is_fitted ''PandasTypeSelector''
             [ts_X_dtypes self \<noteq> None, ts_feature_names self \<noteq> None] of
        Some e \<Rightarrow> (Inl e, self)
      | None \<Rightarrow>
          (case ts_X_dtypes self of
             None \<Rightarrow> (Inl (AttributeError ''X_dtypes_''), self)
           | Some X_dtypes \<Rightarrow>
               (case compare_dtypes X_dtypes X of
                  Some e \<Rightarrow> (Inl (except_value_error e), self)
                | None \<Rightarrow>
                    (case check_X_for_type X of
                       Some e \<Rightarrow> (Inl e, self)
                     | None \<Rightarrow>
                         (case X of
                            DataFrame f \<Rightarrow>
                              (case select_dtypes (ts_include self) (ts_exclude self) f of
                                 Inl e \<Rightarrow> (Inl e, self)
                               | Inr transformed_df \<Rightarrow> (Inr transformed_df, self))
                          | _ \<Rightarrow> (Inl (TypeError NotPandasDataFrame), self))))))"

section \<open>ColumnSelector\<close>

record column_selector =
  cs_columns :: colspec
  cs_fitted_columns :: "label list option"

definition cs_check_column_length :: "label list \<Rightarrow> error option" where
  "cs_check_column_length fitted_columns =
     (if length fitted_columns = 0 then Some (ValueError SelectLengthZero) else None)"

definition ColumnSelector_fit :: "column_selector \<Rightarrow> input \<Rightarrow> (error + unit) \<times> column_selector" where
  "ColumnSelector_fit self X =
     (let fitted_columns = as_list (cs_columns self);
          self1 = self\<lparr>cs_fitted_columns := Some fitted_columns\<rparr>
      in case from_native X of
           Inl e \<Rightarrow> (Inl e, self1)
         | Inr Xf \<Rightarrow>
             (case check_column_names fitted_columns Xf of
                Some e \<Rightarrow> (Inl e, self1)
              | None \<Rightarrow>
                  (case cs_check_column_length fitted_columns of
                     Some e \<Rightarrow> (Inl e, self1)
                   | None \<Rightarrow> (Inr (), self1))))"

text \<open>
  \<open>transform\<close> has no fittedness check; it tests the constructor argument
  \<open>self.columns\<close> and reads the fitted \<open>self.columns_\<close> only when that is truthy.
\<close>

definition ColumnSelector_transform :: "column_selector \<Rightarrow> input \<Rightarrow> (error + input) \<times> column_selector" where
  "ColumnSelector_transform self X =
     (case from_native X of
        Inl e \<Rightarrow> (Inl e, self)
      | Inr Xf \<Rightarrow>
          if truthy (cs_columns self) then
            (case cs_fitted_columns self of
               None \<Rightarrow> (Inl (AttributeError ''columns_''), self)
             | Some fitted_columns \<Rightarrow>
                 (case nw_select Xf fitted_columns of
                    Inl e \<Rightarrow> (Inl e, self)
                  | Inr r \<Rightarrow> (Inr (to_native r), self)))
          else (Inr (to_native Xf), self))"

section \<open>The generic array validator\<close>

text \<open>
  \<open>sklearn.utils.check_array\<close> with the options the source passes or forwards:
  \<open>dtype\<close> (\<open>"numeric"\<close> or \<open>None\<close>), \<open>force_all_finite\<close>, \<open>ensure_min_samples\<close>
  and \<open>ensure_min_features\<close>. The defaults are those of the library.
\<close>

datatype finite_opt = FiniteTrue | FiniteFalse | AllowNaN

record check_opts =
  co_dtype_numeric :: bool
  co_force_all_finite :: finite_opt
  co_ensure_min_samples :: nat
  co_ensure_min_features :: nat

definition default_opts :: check_opts where
  "default_opts = \<lparr>co_dtype_numeric = True, co_force_all_finite = FiniteTrue,
                    co_ensure_min_samples = 1, co_ensure_min_features = 1\<rparr>"

text \<open>
  The nearest float64 of an integer, ties to the even mantissa: an integer of at most 53
  bits is kept, a longer one is rounded at the bit that no longer fits
  (\<open>round_float64\<close> works on the magnitude). A payload that is no integer stands for
  a float already and is kept.
\<close>

function bit_length :: "int \<Rightarrow> nat" where
  "bit_length n = (if n \<le> 0 then 0 else Suc (bit_length (n div 2)))"
  by pat_completeness auto
termination
  by (relation "measure nat") auto

declare bit_length.simps [simp del]

definition round_float64 :: "int \<Rightarrow> int" where
  "round_float64 a =
     (let e = bit_length a - 53
      in if e = 0 then a
         else (let q = a div 2 ^ e; r = a mod 2 ^ e; h = 2 ^ (e - 1)
               in (if h < r \<or> (r = h \<and> odd q) then q + 1 else q) * 2 ^ e))"

definition is_integral :: "rat \<Rightarrow> bool" where
  "is_integral r = (r = of_int \<lfloor>r\<rfloor>)"

definition float64_of :: "rat \<Rightarrow> rat" where
  "float64_of r =
     (if is_integral r then of_int (sgn \<lfloor>r\<rfloor> * round_float64 \<bar>\<lfloor>r\<rfloor>\<bar>) else r)"

text \<open>
  The array of a DataFrame (\<open>.values\<close>, \<open>np.asarray\<close>) has the common dtype of the
  columns; a frame with no column gives a float array. Each cell is cast from the dtype
  of its column to that of the array: an int64 to the nearest float64, an int64 or a
  float64 to a complex number with imaginary part zero (NaN and the infinities keep
  their marker), nothing under object or where the dtypes agree.
\<close>

definition common_dtype :: "dtype \<Rightarrow> dtype \<Rightarrow> dtype" where
  "common_dtype a b =
     (if a = b then a
      else if a = Object \<or> b = Object then Object
      else if a = Complex128 \<or> b = Complex128 then Complex128
      else Float64)"

fun interleaved_dtype :: "dtype list \<Rightarrow> dtype" where
  "interleaved_dtype [] = Float64"
| "interleaved_dtype (d # ds) = foldl common_dtype d ds"

fun cast_cell :: "dtype \<Rightarrow> dtype \<Rightarrow> cell \<Rightarrow> cell" where
  "cast_cell Int64 Float64 (CNum r) = CNum (float64_of r)"
| "cast_cell Int64 Complex128 (CNum r) = CComplex (float64_of r) 0"
| "cast_cell Float64 Complex128 (CNum r) = CComplex r 0"
| "cast_cell from to c = c"

definition frame_values :: "frame \<Rightarrow> ndarray" where
  "frame_values f =
     \<lparr>nd_dtype = interleaved_dtype (map ctype (fcols f)),
      nd_rows = length (findex f),
      nd_cols = map (\<lambda>k. map (cast_cell (ctype k) (interleaved_dtype (map ctype (fcols f)))) (cells k))
                  (fcols f)\<rparr>"

text \<open>
  Conversion of an object array to float, cell by cell in row order: None becomes NaN,
  a number becomes the nearest float64 (OverflowError for an integer beyond the float64
  range), text raises ValueError, a complex number raises TypeError.
\<close>

fun to_float :: "cell \<Rightarrow> error + cell" where
  "to_float CNone = Inr CNaN"
| "to_float (CStr s) = Inl (ValueError CouldNotConvert)"
| "to_float (CComplex re im) = Inl (TypeError ComplexToFloat)"
| "to_float (CNum r) =
     (if is_integral r \<and> 2 ^ 1024 \<le> round_float64 \<bar>\<lfloor>r\<rfloor>\<bar> then Inl OverflowError
      else Inr (CNum (float64_of r)))"
| "to_float c = Inr c"

fun first_error :: "(error + 'a) list \<Rightarrow> error option" where
  "first_error [] = None"
| "first_error (Inl e # xs) = Some e"
| "first_error (Inr v # xs) = first_error xs"

fun float_value :: "cell \<Rightarrow> cell" where
  "float_value CNone = CNaN"
| "float_value (CNum r) = CNum (float64_of r)"
| "float_value c = c"

definition coerce_object :: "ndarray \<Rightarrow> error + ndarray" where
  "coerce_object a =
     (case first_error (map to_float (concat (transpose (nd_cols a)))) of
        Some e \<Rightarrow> Inl e
      | None \<Rightarrow> Inr (a\<lparr>nd_dtype := Float64, nd_cols := map (map float_value) (nd_cols a)\<rparr>))"

definition has_nan :: "ndarray \<Rightarrow> bool" where
  "has_nan a = list_ex (list_ex (\<lambda>c. c = CNaN)) (nd_cols a)"

definition has_inf :: "ndarray \<Rightarrow> bool" where
  "has_inf a = list_ex (list_ex (\<lambda>c. c = CPosInf \<or> c = CNegInf)) (nd_cols a)"

text \<open>
  The finiteness test looks at float arrays (NaN and infinity, NaN let through under
  \<open>"allow-nan"\<close>) and, for NaN only, at object arrays; it is skipped altogether under
  \<open>force_all_finite=False\<close>.
\<close>

definition assert_all_finite :: "finite_opt \<Rightarrow> ndarray \<Rightarrow> error option" where
  "assert_all_finite mode a =
     (if mode = FiniteFalse then None
      else if nd_dtype a = Float64 then
        (if has_inf a \<or> (mode = FiniteTrue \<and> has_nan a) then Some (ValueError InputNotFinite)
         else None)
      else if nd_dtype a = Object \<and> mode = FiniteTrue \<and> has_nan a then
        Some (ValueError InputNotFinite)
      else None)"

definition check_dense :: "check_opts \<Rightarrow> ndarray \<Rightarrow> error + ndarray" where
  "check_dense opts a =
     (case (if co_dtype_numeric opts \<and> nd_dtype a = Object then coerce_object a else Inr a) of
        Inl e \<Rightarrow> Inl e
      | Inr b \<Rightarrow>
          if nd_dtype b = Complex128 then Inl (ValueError ComplexNotSupported)
          else
            (case assert_all_finite (co_force_all_finite opts) b of
               Some e \<Rightarrow> Inl e
             | None \<Rightarrow>
                 if nd_rows b < co_ensure_min_samples opts then
                   Inl (ValueError (TooFewSamples (nd_rows b) (co_ensure_min_samples opts)))
                 else if length (nd_cols b) < co_ensure_min_features opts then
                   Inl (ValueError (TooFewFeatures (length (nd_cols b)) (co_ensure_min_features opts)))
                 else Inr b))"

text \<open>\<open>np.asarray(X)\<close> of a dense input.\<close>

fun asarray :: "input \<Rightarrow> ndarray" where
  "asarray (DataFrame f) = frame_values f"
| "asarray (NdArray a) = a"
| "asarray (SparseMatrix a) = a"

fun issparse :: "input \<Rightarrow> bool" where
  "issparse (SparseMatrix a) = True"
| "issparse (DataFrame f) = False"
| "issparse (NdArray a) = False"

text \<open>With \<open>accept_sparse=False\<close>, as in every call of the source, a sparse input is a TypeError.\<close>

definition check_array :: "check_opts \<Rightarrow> input \<Rightarrow> error + ndarray" where
  "check_array opts X =
     (if issparse X then Inl (TypeError SparseNotAccepted) else check_dense opts (asarray X))"

section \<open>Splitting a table into grouping columns and value columns\<close>

text \<open>
  \<open>_ensure_no_complex_data\<close> reads \<open>X.dtype\<close> when \<open>X\<close> has that attribute. An array
  and a sparse matrix have it; a DataFrame has \<open>dtypes\<close> per column and no \<open>dtype\<close>.
\<close>

fun ensure_no_complex_data :: "input \<Rightarrow> error option" where
  "ensure_no_complex_data (DataFrame f) = None"
| "ensure_no_complex_data (NdArray a) =
     (if nd_dtype a = Complex128 then Some (ValueError ComplexNotSupported) else None)"
| "ensure_no_complex_data (SparseMatrix a) =
     (if nd_dtype a = Complex128 then Some (ValueError ComplexNotSupported) else None)"

definition data_format_checks :: "input \<Rightarrow> string \<Rightarrow> error option" where
  "data_format_checks X name =
     (case ensure_no_complex_data X of
        Some e \<Rightarrow> Some e
      | None \<Rightarrow> if issparse X then Some (ValueError (SparseNotSupported name)) else None)"

text \<open>
  \<open>X.loc[:, groups]\<close> and \<open>X.drop(columns=groups)\<close> of pandas: KeyError on a label
  that the frame does not have.
\<close>

definition pd_loc :: "frame \<Rightarrow> label list \<Rightarrow> error + frame" where
  "pd_loc f groups =
     (if missing_labels groups f \<noteq> [] then Inl (KeyError (missing_labels groups f))
      else Inr (take_columns groups f))"

definition pd_drop :: "frame \<Rightarrow> label list \<Rightarrow> error + frame" where
  "pd_drop f groups =
     (if missing_labels groups f \<noteq> [] then Inl (KeyError (missing_labels groups f))
      else Inr (remove_columns groups f))"

text \<open>
  Positional indexing of numpy and of \<open>range\<close>: an integer within \<open>-n \<le> g < n\<close>, the
  negative ones counted from the end; anything else is an IndexError.
\<close>

fun position :: "nat \<Rightarrow> label \<Rightarrow> nat option" where
  "position n (LInt g) =
     (if 0 \<le> g \<and> g < int n then Some (nat g)
      else if - int n \<le> g \<and> g < 0 then Some (nat (int n + g))
      else None)"
| "position n (LStr s) = None"

fun positions :: "nat \<Rightarrow> label list \<Rightarrow> nat list option" where
  "positions n [] = Some []"
| "positions n (g # gs) =
     (case position n g of
        None \<Rightarrow> None
      | Some p \<Rightarrow> (case positions n gs of None \<Rightarrow> None | Some ps \<Rightarrow> Some (p # ps)))"

text \<open>\<open>pd.DataFrame(X[:, groups])\<close>: the picked columns under fresh labels and a fresh index.\<close>

definition frame_of_columns :: "dtype \<Rightarrow> nat \<Rightarrow> cell list list \<Rightarrow> frame" where
  "frame_of_columns d n cs =
     \<lparr>findex = range_index n,
      fcols = map (\<lambda>(i, c). \<lparr>cname = LInt (int i), ctype = d, cells = c\<rparr>) (enumerate 0 cs)\<rparr>"

text \<open>\<open>np.delete(X, ps, axis=1)\<close>: the columns whose position is not listed.\<close>

definition np_delete :: "ndarray \<Rightarrow> nat list \<Rightarrow> ndarray" where
  "np_delete a ps = a\<lparr>nd_cols := nths (nd_cols a) (- set ps)\<rparr>"

text \<open>
  The body of the \<open>try\<close> block, with the errors as pandas and numpy raise them. A
  sparse matrix never gets here: line 13 has raised on it.
\<close>

fun partition_columns :: "input \<Rightarrow> label list \<Rightarrow> error + (frame \<times> ndarray)" where
  "partition_columns (DataFrame f) groups =
     (case pd_loc f groups of
        Inl e \<Rightarrow> Inl e
      | Inr X_group \<Rightarrow>
          (case pd_drop f groups of
             Inl e \<Rightarrow> Inl e
           | Inr rest \<Rightarrow> Inr (X_group, frame_values rest)))"
| "partition_columns (NdArray a) groups =
     (case positions (length (nd_cols a)) groups of
        None \<Rightarrow> Inl IndexError
      | Some ps \<Rightarrow>
          Inr (frame_of_columns (nd_dtype a) (nd_rows a) (map (\<lambda>p. nd_cols a ! p) ps),
               np_delete a ps))"
| "partition_columns (SparseMatrix a) groups = Inl IndexError"

text \<open>\<open>except (KeyError, IndexError)\<close>: both become the one ValueError; nothing else is caught.\<close>

fun except_key_index :: "label list \<Rightarrow> error \<Rightarrow> error" where
  "except_key_index groups (KeyError ls) = ValueError (CouldNotDropGroups groups)"
| "except_key_index groups IndexError = ValueError (CouldNotDropGroups groups)"
| "except_key_index groups e = e"

definition is_null :: "cell \<Rightarrow> bool" where
  "is_null c = (c = CNone \<or> c = CNaN)"

definition isnull_any :: "frame \<Rightarrow> bool" where
  "isnull_any f = list_ex (\<lambda>k. list_ex is_null (cells k)) (fcols f)"

definition reset_index :: "frame \<Rightarrow> frame" where
  "reset_index f = f\<lparr>findex := range_index (length (findex f))\<rparr>"

definition check_grouping_columns :: "check_opts \<Rightarrow> frame \<Rightarrow> error + frame" where
  "check_grouping_columns kwargs X_group =
     (case select_dtypes [TNumber] [] X_group of
        Inl e \<Rightarrow> Inl e
      | Inr X_group_num \<Rightarrow>
          (case (if length (fcols X_group_num) \<noteq> 0
                 then check_array kwargs (DataFrame X_group_num) else Inr (frame_values X_group_num)) of
             Inl e \<Rightarrow> Inl e
           | Inr checked \<Rightarrow>
               (case select_dtypes [] [TNumber] X_group of
                  Inl e \<Rightarrow> Inl e
                | Inr X_group_other \<Rightarrow>
                    if isnull_any X_group_other then Inl (ValueError XHasNaN)
                    else Inr (reset_index X_group))))"

text \<open>The options of the first validator call (line 14 of the source).\<close>

definition initial_opts :: "nat \<Rightarrow> check_opts" where
  "initial_opts min_value_cols =
     \<lparr>co_dtype_numeric = False, co_force_all_finite = FiniteFalse,
      co_ensure_min_samples = 1, co_ensure_min_features = min_value_cols\<rparr>"

definition split_groups_and_values ::
  "input \<Rightarrow> label list \<Rightarrow> string \<Rightarrow> nat \<Rightarrow> bool \<Rightarrow> check_opts \<Rightarrow> error + (frame \<times> ndarray)" where
  "split_groups_and_values X groups name min_value_cols check_X kwargs =
     (case data_format_checks X name of
        Some e \<Rightarrow> Inl e
      | None \<Rightarrow>
          (case check_array (initial_opts min_value_cols) X of
             Inl e \<Rightarrow> Inl e
           | Inr checked \<Rightarrow>
               (case partition_columns X groups of
                  Inl e \<Rightarrow> Inl (except_key_index groups e)
                | Inr (X_group, X_value) \<Rightarrow>
                    (case check_grouping_columns kwargs X_group of
                       Inl e \<Rightarrow> Inl e
                     | Inr X_group_out \<Rightarrow>
                         if check_X then
                           (case check_array kwargs (NdArray X_value) of
                              Inl e \<Rightarrow> Inl e
                            | Inr X_value_out \<Rightarrow> Inr (X_group_out, X_value_out))
                         else Inr (X_group_out, X_value)))))"

text \<open>
  The two parts of a grouping frame that \<open>_check_grouping_columns\<close> tells apart: the
  columns of a number dtype, and whether a column of any other dtype holds a null.
\<close>

definition number_columns :: "frame \<Rightarrow> column list" where
  "number_columns G = filter (\<lambda>k. matches TNumber (ctype k)) (fcols G)"

definition other_null :: "frame \<Rightarrow> bool" where
  "other_null G = list_ex (\<lambda>k. \<not> matches TNumber (ctype k) \<and> list_ex is_null (cells k)) (fcols G)"

text \<open>
  Some grouping column that is not of a number dtype holds a missing value: for a
  DataFrame a column named in \<open>groups\<close>; for an array, whose columns all share the
  dtype of the array, a column that an entry of \<open>groups\<close> points at.
\<close>

fun group_column_missing :: "input \<Rightarrow> label list \<Rightarrow> bool" where
  "group_column_missing (DataFrame f) groups =
     list_ex (\<lambda>k. cname k \<in> set groups \<and> \<not> matches TNumber (ctype k) \<and> list_ex is_null (cells k))
       (fcols f)"
| "group_column_missing (NdArray a) groups =
     (\<not> matches TNumber (nd_dtype a) \<and>
      list_ex (\<lambda>g. case position (length (nd_cols a)) g of
                     None \<Rightarrow> False
                   | Some p \<Rightarrow> list_ex is_null (nd_cols a ! p)) groups)"
| "group_column_missing (SparseMatrix a) groups = False"

section \<open>Example tables\<close>

text \<open>The table of the docstrings: three people with a name, a length and a shoe size.\<close>

definition ex_frame :: frame where
  "ex_frame =
     \<lparr>findex = [LInt 0, LInt 1, LInt 2],
      fcols =
        [\<lparr>cname = LStr ''name'', ctype = Object, cells = [CStr ''Swen'', CStr ''Victor'', CStr ''Alex'']\<rparr>,
         \<lparr>cname = LStr ''length'', ctype = Float64, cells = [CNum (182/100), CNum (185/100), CNum (180/100)]\<rparr>,
         \<lparr>cname = LStr ''shoesize'', ctype = Int64, cells = [CNum 42, CNum 44, CNum 45]\<rparr>]\<rparr>"

text \<open>The same table with the shoe sizes stored as floats.\<close>

definition ex_frame_float_shoes :: frame where
  "ex_frame_float_shoes =
     \<lparr>findex = [LInt 0, LInt 1, LInt 2],
      fcols =
        [\<lparr>cname = LStr ''name'', ctype = Object, cells = [CStr ''Swen'', CStr ''Victor'', CStr ''Alex'']\<rparr>,
         \<lparr>cname = LStr ''length'', ctype = Float64, cells = [CNum (182/100), CNum (185/100), CNum (180/100)]\<rparr>,
         \<lparr>cname = LStr ''shoesize'', ctype = Float64, cells = [CNum 42, CNum 44, CNum 45]\<rparr>]\<rparr>"

text \<open>A dense float array of one row and two columns.\<close>

definition ex_array :: ndarray where
  "ex_array = \<lparr>nd_dtype = Float64, nd_rows = 1, nd_cols = [[CNum 1], [CNum 2]]\<rparr>"

text \<open>Type selectors: object columns only, numbers only, complex only; unfitted and fitted.\<close>

definition ex_object_selector :: type_selector where
  "ex_object_selector =
     \<lparr>ts_include = [TExact Object], ts_exclude = [], ts_X_dtypes = None, ts_feature_names = None\<rparr>"

definition ex_number_selector :: type_selector where
  "ex_number_selector =
     \<lparr>ts_include = [TNumber], ts_exclude = [], ts_X_dtypes = None, ts_feature_names = None\<rparr>"

definition ex_complex_selector :: type_selector where
  "ex_complex_selector =
     \<lparr>ts_include = [TExact Complex128], ts_exclude = [], ts_X_dtypes = None, ts_feature_names = None\<rparr>"

definition ex_all_dropper :: column_dropper where
  "ex_all_dropper =
     \<lparr>cd_columns = Many [LStr ''name'', LStr ''length'', LStr ''shoesize''],
      cd_fitted_columns = None, cd_feature_names = None\<rparr>"

text \<open>A table with a text column and a float column that holds NaN and infinity.\<close>

definition ex_nonfinite_frame :: frame where
  "ex_nonfinite_frame =
     \<lparr>findex = [LInt 0, LInt 1],
      fcols =
        [\<lparr>cname = LStr ''g'', ctype = Object, cells = [CStr ''a'', CStr ''b'']\<rparr>,
         \<lparr>cname = LStr ''v'', ctype = Float64, cells = [CNaN, CPosInf]\<rparr>]\<rparr>"

text \<open>A table with a text grouping column and a column of complex numbers.\<close>

definition ex_complex_frame :: frame where
  "ex_complex_frame =
     \<lparr>findex = [LInt 0, LInt 1],
      fcols =
        [\<lparr>cname = LStr ''g'', ctype = Object, cells = [CStr ''a'', CStr ''b'']\<rparr>,
         \<lparr>cname = LStr ''v'', ctype = Complex128, cells = [CComplex 1 2, CComplex 3 4]\<rparr>]\<rparr>"

text \<open>
  A table indexed by 10 and 20 with a text grouping column that misses a value, a fully
  populated integer grouping column and a float value column.
\<close>

definition ex_missing_frame :: frame where
  "ex_missing_frame =
     \<lparr>findex = [LInt 10, LInt 20],
      fcols =
        [\<lparr>cname = LStr ''town'', ctype = Object, cells = [CStr ''a'', CNone]\<rparr>,
         \<lparr>cname = LStr ''year'', ctype = Int64, cells = [CNum 1, CNum 2]\<rparr>,
         \<lparr>cname = LStr ''v'', ctype = Float64, cells = [CNum 3, CNum 4]\<rparr>]\<rparr>"

text \<open>The same table with the missing town filled in.\<close>

definition ex_grouped_frame :: frame where
  "ex_grouped_frame =
     \<lparr>findex = [LInt 10, LInt 20],
      fcols =
        [\<lparr>cname = LStr ''town'', ctype = Object, cells = [CStr ''a'', CStr ''b'']\<rparr>,
         \<lparr>cname = LStr ''year'', ctype = Int64, cells = [CNum 1, CNum 2]\<rparr>,
         \<lparr>cname = LStr ''v'', ctype = Float64, cells = [CNum 3, CNum 4]\<rparr>]\<rparr>"

section \<open>Column projection: ColumnSelector and ColumnDropper\<close>













section \<open>Selection by dtype: PandasTypeSelector\<close>

lemma series_ne_any_False_iff: "series_ne_any a b = Inr False \<longleftrightarrow> a = b"
proof
  assume h: "series_ne_any a b = Inr False"
  then have l: "map fst a = map fst b" and n: "\<not> list_ex (\<lambda>(x, y). snd x \<noteq> snd y) (zip a b)"
    by (auto simp: series_ne_any_def split: if_splits)
  from l have "length a = length b" by (rule map_eq_imp_length_eq)
  then show "a = b" using l n
    by (induction a b rule: list_induct2) (auto simp: prod_eq_iff)
next
  assume "a = b"
  then show "series_ne_any a b = Inr False"
    by (induction b arbitrary: a) (auto simp: series_ne_any_def list_ex_iff in_set_zip)
qed

lemma compare_dtypes_frame:
  "compare_dtypes dts (DataFrame T) =
     (if frame_dtypes T = dts then None
      else if map fst dts \<noteq> map fst (frame_dtypes T) then Some (ValueError NotIdenticallyLabeled)
      else Some (ValueError DtypesNotEqual))"
proof (cases "frame_dtypes T = dts")
  case True
  then have "series_ne_any dts (frame_dtypes T) = Inr False"
    by (simp add: series_ne_any_False_iff)
  with True show ?thesis by (simp add: compare_dtypes_def)
next
  case False
  then have "series_ne_any dts (frame_dtypes T) \<noteq> Inr False"
    by (auto simp: series_ne_any_False_iff)
  with False show ?thesis
    by (auto simp: compare_dtypes_def series_ne_any_def split: bool.splits)
qed

lemma transform_on_frame:
  assumes "ts_X_dtypes self = Some dts" and "ts_feature_names self = Some fn"
  shows "PandasTypeSelector_transform self (DataFrame T) =
           (if frame_dtypes T = dts
            then (select_dtypes (ts_include self) (ts_exclude self) T, self)
            else (Inl (ValueError ColumnsNotEqual), self))"
  using assms
  by (simp add: PandasTypeSelector_transform_def check_is_fitted_def compare_dtypes_frame
      split: sum.splits)

lemma fit_success:
  assumes "PandasTypeSelector_fit self X = (Inr (), self')"
  shows "\<exists>T sel. X = DataFrame T
           \<and> select_dtypes (ts_include self) (ts_exclude self) T = Inr sel
           \<and> frame_columns sel \<noteq> []
           \<and> self' = self\<lparr>ts_X_dtypes := Some (frame_dtypes T),
                             ts_feature_names := Some (frame_columns sel)\<rparr>"
  using assms
  by (cases X) (auto simp: PandasTypeSelector_fit_def Let_def split: sum.splits if_splits)

lemma select_dtypes_columns:
  "select_dtypes inc exc T = Inr sel \<Longrightarrow>
   frame_columns sel = map fst (filter (\<lambda>p. dtype_selected inc exc (snd p)) (frame_dtypes T))"
  by (auto simp: select_dtypes_def frame_columns_def frame_dtypes_def filter_map comp_def
      split: if_splits)

lemma accepted_replays_fitted:
  assumes "PandasTypeSelector_fit self X1 = (Inr (), self')"
    and "PandasTypeSelector_transform self' X2 = (Inr out, self'')"
  shows "ts_feature_names self' = Some (frame_columns out)"
proof -
  from fit_success [OF assms(1)] obtain T1 sel where
    X1: "X1 = DataFrame T1"
    and sel: "select_dtypes (ts_include self) (ts_exclude self) T1 = Inr sel"
    and s: "self' = self\<lparr>ts_X_dtypes := Some (frame_dtypes T1),
                          ts_feature_names := Some (frame_columns sel)\<rparr>" by auto
  from assms(2) obtain T2 where X2: "X2 = DataFrame T2"
    by (cases X2) (auto simp: PandasTypeSelector_transform_def s check_is_fitted_def compare_dtypes_def)
  from assms(2) transform_on_frame [of self' "frame_dtypes T1" "frame_columns sel" T2]
  have eq: "frame_dtypes T2 = frame_dtypes T1"
    and out: "select_dtypes (ts_include self) (ts_exclude self) T2 = Inr out"
    by (auto simp: s X2 split: if_splits)
  from select_dtypes_columns [OF sel] select_dtypes_columns [OF out] eq
  have "frame_columns out = frame_columns sel" by simp
  then show ?thesis by (simp add: s)
qed

text \<open>
  C6. Let \<open>fit(T1)\<close> have returned, \<open>T1\<close> with pairwise distinct labels. If some
  column label carries one dtype in \<open>T1\<close> and another in \<open>T2\<close>, then
  \<open>transform(T2)\<close> raises the ValueError "Columns were not equal during fit and
  transform". Nothing is assumed about the include and exclude lists, so the column may
  well be outside the selection: the whole dtype record of the fit is compared.
\<close>

theorem dtype_mismatch_raises:
  assumes "PandasTypeSelector_fit self (DataFrame T1) = (Inr (), self')"
    and "distinct (frame_columns T1)"
    and "(c, d1) \<in> set (frame_dtypes T1)" and "(c, d2) \<in> set (frame_dtypes T2)" and "d1 \<noteq> d2"
  shows "PandasTypeSelector_transform self' (DataFrame T2) = (Inl (ValueError ColumnsNotEqual), self')"
proof -
  from fit_success [OF assms(1)] obtain sel where
    s: "self' = self\<lparr>ts_X_dtypes := Some (frame_dtypes T1),
                       ts_feature_names := Some (frame_columns sel)\<rparr>" by auto
  have "frame_dtypes T2 \<noteq> frame_dtypes T1"
  proof
    assume "frame_dtypes T2 = frame_dtypes T1"
    with assms(4) have "(c, d2) \<in> set (frame_dtypes T1)" by simp
    moreover have "distinct (map fst (frame_dtypes T1))"
      using assms(2) by (simp add: frame_dtypes_def frame_columns_def comp_def)
    ultimately have "d1 = d2" using assms(3) by (meson eq_key_imp_eq_value)
    with assms(5) show False by simp
  qed
  then show ?thesis
    using transform_on_frame [of self' "frame_dtypes T1" "frame_columns sel" T2]
    by (simp add: s)
qed

theorem dtype_mismatch_raises_witness:
  "PandasTypeSelector_fit ex_object_selector (DataFrame ex_frame)
     = (Inr (), ex_object_selector\<lparr>ts_X_dtypes := Some (frame_dtypes ex_frame),
                                     ts_feature_names := Some [LStr ''name'']\<rparr>)
   \<and> \<not> dtype_selected [TExact Object] [] Int64 \<and> \<not> dtype_selected [TExact Object] [] Float64
   \<and> PandasTypeSelector_transform
        (ex_object_selector\<lparr>ts_X_dtypes := Some (frame_dtypes ex_frame),
                              ts_feature_names := Some [LStr ''name'']\<rparr>)
        (DataFrame ex_frame_float_shoes)
     = (Inl (ValueError ColumnsNotEqual),
        ex_object_selector\<lparr>ts_X_dtypes := Some (frame_dtypes ex_frame),
                             ts_feature_names := Some [LStr ''name'']\<rparr>)"
proof -
  let ?s = "ex_object_selector\<lparr>ts_X_dtypes := Some (frame_dtypes ex_frame),
                                ts_feature_names := Some [LStr ''name'']\<rparr>"
  have f: "PandasTypeSelector_fit ex_object_selector (DataFrame ex_frame) = (Inr (), ?s)"
    by (simp add: PandasTypeSelector_fit_def ex_object_selector_def select_dtypes_def
        dtype_selected_def ex_frame_def frame_columns_def frame_dtypes_def Let_def)
  have d: "distinct (frame_columns ex_frame)"
    by (simp add: ex_frame_def frame_columns_def)
  have a: "(LStr ''shoesize'', Int64) \<in> set (frame_dtypes ex_frame)"
    by (simp add: ex_frame_def frame_dtypes_def)
  have b: "(LStr ''shoesize'', Float64) \<in> set (frame_dtypes ex_frame_float_shoes)"
    by (simp add: ex_frame_float_shoes_def frame_dtypes_def)
  have n: "Int64 \<noteq> Float64" by simp
  have s: "\<not> dtype_selected [TExact Object] [] Int64 \<and> \<not> dtype_selected [TExact Object] [] Float64"
    by (simp add: dtype_selected_def)
  from dtype_mismatch_raises [OF f d a b n] f s show ?thesis by blast
qed

text \<open>
  C7, as amended. Whenever \<open>fit(T1)\<close> has returned and \<open>transform(T2)\<close> returns a
  table, the column labels of that table are the fitted \<open>feature_names_\<close>, in the same
  order: an input gets past the dtype comparison only with the labels and dtypes of the
  fit, and the selection looks at nothing else.
\<close>

theorem accepted_transform_replays_fitted_columns:
  assumes "PandasTypeSelector_fit self X1 = (Inr (), self')"
    and "PandasTypeSelector_transform self' X2 = (Inr out, self'')"
  shows "ts_feature_names self' = Some (frame_columns out)"
  using assms by (rule accepted_replays_fitted)

theorem accepted_transform_replays_fitted_columns_witness:
  "PandasTypeSelector_fit ex_number_selector (DataFrame ex_frame)
     = (Inr (), ex_number_selector\<lparr>ts_X_dtypes := Some (frame_dtypes ex_frame),
                                     ts_feature_names := Some [LStr ''length'', LStr ''shoesize'']\<rparr>)
   \<and> PandasTypeSelector_transform
        (ex_number_selector\<lparr>ts_X_dtypes := Some (frame_dtypes ex_frame),
                              ts_feature_names := Some [LStr ''length'', LStr ''shoesize'']\<rparr>)
        (DataFrame ex_frame)
     = (Inr (ex_frame\<lparr>fcols := tl (fcols ex_frame)\<rparr>),
        ex_number_selector\<lparr>ts_X_dtypes := Some (frame_dtypes ex_frame),
                             ts_feature_names := Some [LStr ''length'', LStr ''shoesize'']\<rparr>)
   \<and> ts_feature_names
        (ex_number_selector\<lparr>ts_X_dtypes := Some (frame_dtypes ex_frame),
                              ts_feature_names := Some [LStr ''length'', LStr ''shoesize'']\<rparr>)
     = Some (frame_columns (ex_frame\<lparr>fcols := tl (fcols ex_frame)\<rparr>))"
proof -
  let ?s = "ex_number_selector\<lparr>ts_X_dtypes := Some (frame_dtypes ex_frame),
                                ts_feature_names := Some [LStr ''length'', LStr ''shoesize'']\<rparr>"
  have f: "PandasTypeSelector_fit ex_number_selector (DataFrame ex_frame) = (Inr (), ?s)"
    by (simp add: PandasTypeSelector_fit_def ex_number_selector_def select_dtypes_def
        dtype_selected_def ex_frame_def frame_columns_def frame_dtypes_def Let_def)
  have t: "PandasTypeSelector_transform ?s (DataFrame ex_frame)
             = (Inr (ex_frame\<lparr>fcols := tl (fcols ex_frame)\<rparr>), ?s)"
    by (simp add: transform_on_frame [of _ "frame_dtypes ex_frame" "[LStr ''length'', LStr ''shoesize'']"]
        ex_number_selector_def select_dtypes_def dtype_selected_def ex_frame_def)
  from accepted_transform_replays_fitted_columns [OF f t] f t show ?thesis by blast
qed

text \<open>
  C7, as stated, is refuted: no fit input and accepted transform input exist for which
  the columns of the output differ from the fitted \<open>feature_names_\<close>.
\<close>

theorem recomputed_selection_never_differs:
  "\<not> (\<exists>self X1 self' X2 out self'' names.
         PandasTypeSelector_fit self X1 = (Inr (), self')
       \<and> PandasTypeSelector_transform self' X2 = (Inr out, self'')
       \<and> ts_feature_names self' = Some names
       \<and> set (frame_columns out) \<noteq> set names)"
proof
  assume "\<exists>self X1 self' X2 out self'' names.
         PandasTypeSelector_fit self X1 = (Inr (), self')
       \<and> PandasTypeSelector_transform self' X2 = (Inr out, self'')
       \<and> ts_feature_names self' = Some names
       \<and> set (frame_columns out) \<noteq> set names"
  then obtain self X1 self' X2 out self'' names where
    f: "PandasTypeSelector_fit self X1 = (Inr (), self')"
    and t: "PandasTypeSelector_transform self' X2 = (Inr out, self'')"
    and n: "ts_feature_names self' = Some names"
    and d: "set (frame_columns out) \<noteq> set names" by blast
  from accepted_replays_fitted [OF f t] n have "names = frame_columns out" by simp
  with d show False by simp
qed

text \<open>
  C8. The docstring of \<open>transform\<close> promises TypeError for an input that is not a
  DataFrame. On a fitted selector and a numpy array the call raises AttributeError
  instead: \<open>X.dtypes\<close> is read on line 291, before \<open>_check_X_for_type\<close> on line 301,
  and the \<open>except\<close> clause around it catches ValueError only.
\<close>

theorem transform_of_array_raises_attribute_error:
  "PandasTypeSelector_fit ex_number_selector (DataFrame ex_frame)
     = (Inr (), ex_number_selector\<lparr>ts_X_dtypes := Some (frame_dtypes ex_frame),
                                     ts_feature_names := Some [LStr ''length'', LStr ''shoesize'']\<rparr>)
   \<and> PandasTypeSelector_transform
        (ex_number_selector\<lparr>ts_X_dtypes := Some (frame_dtypes ex_frame),
                              ts_feature_names := Some [LStr ''length'', LStr ''shoesize'']\<rparr>)
        (NdArray ex_array)
     = (Inl (AttributeError ''dtypes''),
        ex_number_selector\<lparr>ts_X_dtypes := Some (frame_dtypes ex_frame),
                             ts_feature_names := Some [LStr ''length'', LStr ''shoesize'']\<rparr>)"
  by (simp add: PandasTypeSelector_fit_def PandasTypeSelector_transform_def check_is_fitted_def
      compare_dtypes_def ex_number_selector_def select_dtypes_def dtype_selected_def ex_frame_def
      frame_columns_def frame_dtypes_def Let_def)

section \<open>What a failing call leaves behind\<close>

lemma selector_transform_keeps_instance: "snd (ColumnSelector_transform s X) = s"
  by (simp add: ColumnSelector_transform_def split: sum.splits option.splits)

lemma dropper_transform_keeps_instance: "snd (ColumnDropper_transform d X) = d"
  by (simp add: ColumnDropper_transform_def split: sum.splits option.splits)

lemma type_selector_transform_keeps_instance: "snd (PandasTypeSelector_transform t X) = t"
  by (simp add: PandasTypeSelector_transform_def split: sum.splits option.splits input.splits)

lemma selector_fit_instance:
  "snd (ColumnSelector_fit s X) = s\<lparr>cs_fitted_columns := Some (as_list (cs_columns s))\<rparr>"
  by (simp add: ColumnSelector_fit_def Let_def split: sum.splits option.splits)

lemma dropper_fit_keeps_parameter: "cd_columns (snd (ColumnDropper_fit d X)) = cd_columns d"
  by (simp add: ColumnDropper_fit_def Let_def split: sum.splits option.splits)

lemma type_selector_fit_keeps_parameters:
  "ts_include (snd (PandasTypeSelector_fit t X)) = ts_include t
   \<and> ts_exclude (snd (PandasTypeSelector_fit t X)) = ts_exclude t"
  by (simp add: PandasTypeSelector_fit_def Let_def split: sum.splits option.splits input.splits)

lemma type_selector_fit_wrong_type:
  "check_X_for_type X = Some e \<Longrightarrow> PandasTypeSelector_fit t X = (Inl e, t)"
  by (simp add: PandasTypeSelector_fit_def)

text \<open>
  C9, as stated, fails: \<open>PandasTypeSelector(include="complex128").fit\<close> on the example
  table raises "Provided type(s) results in empty dataframe", and the instance has got
  \<open>X_dtypes_\<close> and an empty \<open>feature_names_\<close> by then.
\<close>

theorem failed_fit_changes_instance:
  "PandasTypeSelector_fit ex_complex_selector (DataFrame ex_frame)
     = (Inl (ValueError TypesEmpty),
        ex_complex_selector\<lparr>ts_X_dtypes := Some (frame_dtypes ex_frame), ts_feature_names := Some []\<rparr>)
   \<and> ex_complex_selector\<lparr>ts_X_dtypes := Some (frame_dtypes ex_frame), ts_feature_names := Some []\<rparr>
       \<noteq> ex_complex_selector"
  by (simp add: PandasTypeSelector_fit_def ex_complex_selector_def select_dtypes_def
      dtype_selected_def ex_frame_def frame_columns_def frame_dtypes_def Let_def)

lemma dropper_fit_failure:
  assumes "fst (ColumnDropper_fit d X) = Inl e"
  shows "snd (ColumnDropper_fit d X) =
           (if e = ValueError (DropEmpty (as_list (cd_columns d)))
            then d\<lparr>cd_fitted_columns := Some (as_list (cd_columns d)), cd_feature_names := Some []\<rparr>
            else d\<lparr>cd_fitted_columns := Some (as_list (cd_columns d))\<rparr>)"
  using assms
  by (cases X)
    (auto simp: ColumnDropper_fit_def check_column_names_def cd_check_column_length_def Let_def
      split: if_splits)

lemma type_selector_fit_failure:
  assumes "fst (PandasTypeSelector_fit t (DataFrame f)) = Inl e"
  shows "snd (PandasTypeSelector_fit t (DataFrame f)) =
           (if e = ValueError TypesEmpty
            then t\<lparr>ts_X_dtypes := Some (frame_dtypes f), ts_feature_names := Some []\<rparr>
            else t\<lparr>ts_X_dtypes := Some (frame_dtypes f)\<rparr>)"
  using assms
  by (auto simp: PandasTypeSelector_fit_def select_dtypes_def Let_def split: if_splits)

text \<open>
  C9, as amended. A call that fails returns its error and no result. \<open>transform\<close> of
  each of the three classes leaves the instance exactly as it was, whether it fails or
  not, and \<open>fit\<close> never changes a constructor parameter. A \<open>fit\<close> that fails leaves
  the fitted attributes it had assigned before the raise:
  \<^item> \<open>ColumnSelector.fit\<close> leaves \<open>columns_\<close> assigned and nothing else changed;
  \<^item> \<open>ColumnDropper.fit\<close> leaves \<open>columns_\<close> assigned, and \<open>feature_names_\<close>
    assigned (the empty list) exactly when the failure is the one about an empty
    output, otherwise as it was;
  \<^item> \<open>PandasTypeSelector.fit\<close> leaves the instance as it was when the input is no
    DataFrame; on a DataFrame it leaves \<open>X_dtypes_\<close> assigned, and \<open>feature_names_\<close>
    assigned (the empty list) exactly when the failure is the one about an empty
    selection, otherwise as it was.
\<close>

theorem failing_call_effect:
  "snd (ColumnSelector_transform s X) = s
   \<and> snd (ColumnDropper_transform d X) = d
   \<and> snd (PandasTypeSelector_transform t X) = t
   \<and> snd (ColumnSelector_fit s X) = s\<lparr>cs_fitted_columns := Some (as_list (cs_columns s))\<rparr>
   \<and> cd_columns (snd (ColumnDropper_fit d X)) = cd_columns d
   \<and> ts_include (snd (PandasTypeSelector_fit t X)) = ts_include t
   \<and> ts_exclude (snd (PandasTypeSelector_fit t X)) = ts_exclude t
   \<and> (check_X_for_type X \<noteq> None \<longrightarrow>
        PandasTypeSelector_fit t X = (Inl (TypeError NotPandasDataFrame), t))
   \<and> (fst (ColumnDropper_fit d X) = Inl e \<longrightarrow>
        snd (ColumnDropper_fit d X) =
          (if e = ValueError (DropEmpty (as_list (cd_columns d)))
           then d\<lparr>cd_fitted_columns := Some (as_list (cd_columns d)), cd_feature_names := Some []\<rparr>
           else d\<lparr>cd_fitted_columns := Some (as_list (cd_columns d))\<rparr>))
   \<and> (fst (PandasTypeSelector_fit t (DataFrame f)) = Inl e' \<longrightarrow>
        snd (PandasTypeSelector_fit t (DataFrame f)) =
          (if e' = ValueError TypesEmpty
           then t\<lparr>ts_X_dtypes := Some (frame_dtypes f), ts_feature_names := Some []\<rparr>
           else t\<lparr>ts_X_dtypes := Some (frame_dtypes f)\<rparr>))"
proof -
  have "check_X_for_type X \<noteq> None \<longrightarrow>
        PandasTypeSelector_fit t X = (Inl (TypeError NotPandasDataFrame), t)"
    by (cases X) (simp_all add: type_selector_fit_wrong_type)
  then show ?thesis
    using selector_transform_keeps_instance dropper_transform_keeps_instance
      type_selector_transform_keeps_instance selector_fit_instance dropper_fit_keeps_parameter
      type_selector_fit_keeps_parameters dropper_fit_failure type_selector_fit_failure
    by (intro conjI impI) blast+
qed

theorem failing_call_effect_witness:
  "check_X_for_type (NdArray ex_array) \<noteq> None
   \<and> PandasTypeSelector_fit ex_number_selector (NdArray ex_array)
       = (Inl (TypeError NotPandasDataFrame), ex_number_selector)
   \<and> fst (ColumnDropper_fit ex_all_dropper (DataFrame ex_frame))
       = Inl (ValueError (DropEmpty [LStr ''name'', LStr ''length'', LStr ''shoesize'']))
   \<and> snd (ColumnDropper_fit ex_all_dropper (DataFrame ex_frame))
       = ex_all_dropper\<lparr>cd_fitted_columns := Some [LStr ''name'', LStr ''length'', LStr ''shoesize''],
                        cd_feature_names := Some []\<rparr>
   \<and> fst (PandasTypeSelector_fit ex_complex_selector (DataFrame ex_frame)) = Inl (ValueError TypesEmpty)
   \<and> snd (PandasTypeSelector_fit ex_complex_selector (DataFrame ex_frame))
       = ex_complex_selector\<lparr>ts_X_dtypes := Some (frame_dtypes ex_frame), ts_feature_names := Some []\<rparr>"
proof -
  let ?all = "[LStr ''name'', LStr ''length'', LStr ''shoesize'']"
  have h: "check_X_for_type (NdArray ex_array) \<noteq> None" by simp
  have a: "as_list (cd_columns ex_all_dropper) = ?all" by (simp add: ex_all_dropper_def)
  have e1: "fst (ColumnDropper_fit ex_all_dropper (DataFrame ex_frame)) = Inl (ValueError (DropEmpty ?all))"
    by (simp add: ColumnDropper_fit_def check_column_names_def cd_check_column_length_def
        missing_labels_def ex_all_dropper_def ex_frame_def frame_columns_def Let_def)
  have e2: "fst (PandasTypeSelector_fit ex_complex_selector (DataFrame ex_frame))
              = Inl (ValueError TypesEmpty)"
    by (simp add: PandasTypeSelector_fit_def ex_complex_selector_def select_dtypes_def
        dtype_selected_def ex_frame_def frame_columns_def Let_def)
  note r1 = failing_call_effect [where X = "NdArray ex_array" and t = ex_number_selector]
  note r2 = failing_call_effect [where X = "DataFrame ex_frame" and d = ex_all_dropper
      and e = "ValueError (DropEmpty ?all)" and t = ex_complex_selector and f = ex_frame
      and e' = "ValueError TypesEmpty"]
  from r1 h have 1: "PandasTypeSelector_fit ex_number_selector (NdArray ex_array)
       = (Inl (TypeError NotPandasDataFrame), ex_number_selector)" by blast
  from r2 e1 a have 2: "snd (ColumnDropper_fit ex_all_dropper (DataFrame ex_frame))
       = ex_all_dropper\<lparr>cd_fitted_columns := Some ?all, cd_feature_names := Some []\<rparr>" by simp
  from r2 e2 have 3: "snd (PandasTypeSelector_fit ex_complex_selector (DataFrame ex_frame))
       = ex_complex_selector\<lparr>ts_X_dtypes := Some (frame_dtypes ex_frame), ts_feature_names := Some []\<rparr>"
    by simp
  from h 1 e1 2 e2 3 show ?thesis by blast
qed

section \<open>Transform before fit\<close>

lemma dropper_unfitted:
  "cd_feature_names d = None \<Longrightarrow>
   ColumnDropper_transform d X = (Inl (NotFittedError ''ColumnDropper''), d)"
  by (simp add: ColumnDropper_transform_def check_is_fitted_def)

lemma type_selector_unfitted:
  "ts_X_dtypes t = None \<or> ts_feature_names t = None \<Longrightarrow>
   PandasTypeSelector_transform t X = (Inl (NotFittedError ''PandasTypeSelector''), t)"
  by (auto simp: PandasTypeSelector_transform_def check_is_fitted_def)

lemma selector_unfitted:
  "cs_fitted_columns s = None \<Longrightarrow>
   ColumnSelector_transform s X =
     (case from_native X of
        Inl e \<Rightarrow> (Inl e, s)
      | Inr f \<Rightarrow> if truthy (cs_columns s) then (Inl (AttributeError ''columns_''), s)
                 else (Inr (DataFrame f), s))"
  by (simp add: ColumnSelector_transform_def to_native_def split: sum.splits)

lemma from_native_error:
  "from_native X = Inl e \<Longrightarrow> e = TypeError NotSupportedFrame \<or> e = ValueError ExpectedUniqueColumns"
  by (cases X) (auto split: if_splits)

lemma selector_never_not_fitted: "fst (ColumnSelector_transform s X) \<noteq> Inl (NotFittedError n)"
  by (auto simp: ColumnSelector_transform_def nw_select_def
      split: sum.splits option.splits if_splits dest: from_native_error)

text \<open>
  C10, as stated, fails twice. A ColumnDropper whose only \<open>fit\<close> raised "Dropping ...
  would result in an empty output DataFrame" has never been fitted successfully, yet
  \<open>feature_names_\<close> is there and \<open>transform\<close> returns a table. And \<open>transform\<close> of
  an unfitted ColumnSelector on a numpy array fails with the TypeError of the dataframe
  shim, not by reading the absent attribute.
\<close>

theorem transform_after_failed_fit:
  "ColumnDropper_fit ex_all_dropper (DataFrame ex_frame)
     = (Inl (ValueError (DropEmpty [LStr ''name'', LStr ''length'', LStr ''shoesize''])),
        ex_all_dropper\<lparr>cd_fitted_columns := Some [LStr ''name'', LStr ''length'', LStr ''shoesize''],
                        cd_feature_names := Some []\<rparr>)
   \<and> fst (ColumnDropper_transform
            (ex_all_dropper\<lparr>cd_fitted_columns := Some [LStr ''name'', LStr ''length'', LStr ''shoesize''],
                             cd_feature_names := Some []\<rparr>)
            (DataFrame ex_frame))
       = Inr (DataFrame \<lparr>findex = [LInt 0, LInt 1, LInt 2], fcols = []\<rparr>)
   \<and> fst (ColumnSelector_transform \<lparr>cs_columns = Many [LStr ''name''], cs_fitted_columns = None\<rparr>
            (NdArray ex_array))
       = Inl (TypeError NotSupportedFrame)"
  by (simp add: ColumnDropper_fit_def ColumnDropper_transform_def ColumnSelector_transform_def
      check_column_names_def cd_check_column_length_def check_is_fitted_def missing_labels_def
      nw_drop_def remove_columns_def to_native_def ex_all_dropper_def ex_frame_def
      frame_columns_def Let_def)

text \<open>
  C10, as amended. On an instance without the fitted attributes (no \<open>fit\<close> has got as
  far as assigning them), \<open>ColumnDropper.transform\<close> and
  \<open>PandasTypeSelector.transform\<close> raise NotFittedError on every input, before any
  other work. \<open>ColumnSelector.transform\<close> has no fittedness check and never raises
  NotFittedError: without \<open>columns_\<close> it first hands the input to the dataframe shim,
  whose error leaves the call as it is (TypeError for an input that is no dataframe,
  ValueError for a frame with a repeated column label); on an accepted frame it raises
  AttributeError for the absent \<open>columns_\<close> when the constructor argument is truthy,
  and returns the input otherwise.
\<close>

theorem transform_before_fit:
  "(cd_feature_names d = None \<longrightarrow>
      ColumnDropper_transform d X = (Inl (NotFittedError ''ColumnDropper''), d))
   \<and> (ts_X_dtypes t = None \<or> ts_feature_names t = None \<longrightarrow>
      PandasTypeSelector_transform t X = (Inl (NotFittedError ''PandasTypeSelector''), t))
   \<and> (cs_fitted_columns s = None \<longrightarrow>
      ColumnSelector_transform s X =
        (case X of
           DataFrame f \<Rightarrow>
             if \<not> distinct (frame_columns f) then (Inl (ValueError ExpectedUniqueColumns), s)
             else if truthy (cs_columns s) then (Inl (AttributeError ''columns_''), s)
             else (Inr (DataFrame f), s)
         | NdArray a \<Rightarrow> (Inl (TypeError NotSupportedFrame), s)
         | SparseMatrix a \<Rightarrow> (Inl (TypeError NotSupportedFrame), s)))
   \<and> fst (ColumnSelector_transform s X) \<noteq> Inl (NotFittedError n)"
proof -
  have "cs_fitted_columns s = None \<longrightarrow>
      ColumnSelector_transform s X =
        (case X of
           DataFrame f \<Rightarrow>
             if \<not> distinct (frame_columns f) then (Inl (ValueError ExpectedUniqueColumns), s)
             else if truthy (cs_columns s) then (Inl (AttributeError ''columns_''), s)
             else (Inr (DataFrame f), s)
         | NdArray a \<Rightarrow> (Inl (TypeError NotSupportedFrame), s)
         | SparseMatrix a \<Rightarrow> (Inl (TypeError NotSupportedFrame), s))"
    by (cases X) (simp_all add: selector_unfitted)
  then show ?thesis
    using dropper_unfitted type_selector_unfitted selector_never_not_fitted by blast
qed

theorem transform_before_fit_witness:
  "cd_feature_names ex_all_dropper = None
   \<and> ColumnDropper_transform ex_all_dropper (DataFrame ex_frame)
       = (Inl (NotFittedError ''ColumnDropper''), ex_all_dropper)
   \<and> ts_X_dtypes ex_number_selector = None
   \<and> PandasTypeSelector_transform ex_number_selector (DataFrame ex_frame)
       = (Inl (NotFittedError ''PandasTypeSelector''), ex_number_selector)
   \<and> distinct (frame_columns ex_frame)
   \<and> ColumnSelector_transform \<lparr>cs_columns = Many [LStr ''name''], cs_fitted_columns = None\<rparr>
        (DataFrame ex_frame)
       = (Inl (AttributeError ''columns_''),
          \<lparr>cs_columns = Many [LStr ''name''], cs_fitted_columns = None\<rparr>)"
proof -
  have a: "cd_feature_names ex_all_dropper = None" by (simp add: ex_all_dropper_def)
  have b: "ts_X_dtypes ex_number_selector = None" by (simp add: ex_number_selector_def)
  have c: "cs_fitted_columns \<lparr>cs_columns = Many [LStr ''name''], cs_fitted_columns = None\<rparr> = None"
    by simp
  have dd: "distinct (frame_columns ex_frame)" by (simp add: ex_frame_def frame_columns_def)
  note r = transform_before_fit [of ex_all_dropper "DataFrame ex_frame" ex_number_selector
      "\<lparr>cs_columns = Many [LStr ''name''], cs_fitted_columns = None\<rparr>"]
  from r a have 1: "ColumnDropper_transform ex_all_dropper (DataFrame ex_frame)
       = (Inl (NotFittedError ''ColumnDropper''), ex_all_dropper)" by blast
  from r b have 2: "PandasTypeSelector_transform ex_number_selector (DataFrame ex_frame)
       = (Inl (NotFittedError ''PandasTypeSelector''), ex_number_selector)" by blast
  from r c dd have 3: "ColumnSelector_transform \<lparr>cs_columns = Many [LStr ''name''], cs_fitted_columns = None\<rparr>
        (DataFrame ex_frame)
       = (Inl (AttributeError ''columns_''),
          \<lparr>cs_columns = Many [LStr ''name''], cs_fitted_columns = None\<rparr>)" by simp
  from a b dd 1 2 3 show ?thesis by blast
qed

section \<open>Splitting: shapes\<close>

lemma coerce_object_shape:
  "coerce_object a = Inr b \<Longrightarrow> nd_rows b = nd_rows a \<and> length (nd_cols b) = length (nd_cols a)"
  by (auto simp: coerce_object_def split: option.splits)

lemma check_dense_shape:
  assumes "check_dense opts a = Inr b"
  shows "nd_rows b = nd_rows a \<and> length (nd_cols b) = length (nd_cols a)"
proof (cases "co_dtype_numeric opts \<and> nd_dtype a = Object")
  case True
  with assms obtain c where c: "coerce_object a = Inr c" and "b = c"
    by (auto simp: check_dense_def split: sum.splits if_splits option.splits)
  with coerce_object_shape [OF c] show ?thesis by simp
next
  case False
  with assms have "b = a"
    by (auto simp: check_dense_def split: sum.splits if_splits option.splits)
  then show ?thesis by simp
qed

lemma check_array_shape:
  "check_array opts X = Inr b \<Longrightarrow>
   nd_rows b = nd_rows (asarray X) \<and> length (nd_cols b) = length (nd_cols (asarray X))"
  by (auto simp: check_array_def split: if_splits dest: check_dense_shape)

lemma initial_check_equation:
  assumes "\<not> issparse X"
  shows "check_array (initial_opts m) X =
     (if nd_dtype (asarray X) = Complex128 then Inl (ValueError ComplexNotSupported)
      else if nd_rows (asarray X) < 1 then Inl (ValueError (TooFewSamples (nd_rows (asarray X)) 1))
      else if length (nd_cols (asarray X)) < m
        then Inl (ValueError (TooFewFeatures (length (nd_cols (asarray X))) m))
      else Inr (asarray X))"
  using assms
  by (simp add: check_array_def check_dense_def initial_opts_def assert_all_finite_def)

lemma check_grouping_result:
  "check_grouping_columns kwargs G = Inr R \<Longrightarrow> R = reset_index G"
  by (auto simp: check_grouping_columns_def split: sum.splits if_splits)

lemma split_success:
  assumes "split_groups_and_values X groups name m check_X kwargs = Inr (G, V)"
  shows "\<exists>G0 V0. partition_columns X groups = Inr (G0, V0) \<and> G = reset_index G0
          \<and> nd_rows V = nd_rows V0 \<and> length (nd_cols V) = length (nd_cols V0)"
proof -
  from assms obtain G0 V0 where p: "partition_columns X groups = Inr (G0, V0)"
    and g: "check_grouping_columns kwargs G0 = Inr G"
    and v: "(check_X \<and> check_array kwargs (NdArray V0) = Inr V) \<or> (\<not> check_X \<and> V = V0)"
    by (auto simp: split_groups_and_values_def split: option.splits sum.splits if_splits prod.splits)
  from v have "nd_rows V = nd_rows V0 \<and> length (nd_cols V) = length (nd_cols V0)"
    by (auto dest: check_array_shape)
  with p check_grouping_result [OF g] show ?thesis by blast
qed

lemma partition_frame:
  assumes "partition_columns (DataFrame f) groups = Inr (G0, V0)"
  shows "G0 = take_columns groups f \<and> V0 = frame_values (remove_columns groups f)
         \<and> set groups \<subseteq> set (frame_columns f)"
  using assms
  by (auto simp: pd_loc_def pd_drop_def missing_labels_def filter_empty_conv
      split: sum.splits if_splits)

lemma partition_array:
  assumes "partition_columns (NdArray a) groups = Inr (G0, V0)"
  shows "\<exists>ps. positions (length (nd_cols a)) groups = Some ps
           \<and> G0 = frame_of_columns (nd_dtype a) (nd_rows a) (map (\<lambda>p. nd_cols a ! p) ps)
           \<and> V0 = np_delete a ps"
  using assms by (auto split: option.splits)

lemma position_bound: "position n g = Some p \<Longrightarrow> p < n"
  by (cases g) (auto split: if_splits)

lemma positions_props:
  "positions n gs = Some ps \<Longrightarrow> length ps = length gs \<and> set ps \<subseteq> {..<n}"
proof (induction gs arbitrary: ps)
  case Nil
  then show ?case by simp
next
  case (Cons g gs)
  then show ?case
    by (auto split: option.splits dest: position_bound)
qed

lemma length_nths_compl:
  assumes "distinct ps" and "set ps \<subseteq> {..<length xs}"
  shows "length (nths xs (- set ps)) + length ps = length xs"
proof -
  have "{i. i < length xs \<and> i \<in> - set ps} = {..<length xs} - set ps" by auto
  then have "length (nths xs (- set ps)) = card ({..<length xs} - set ps)"
    by (simp add: length_nths)
  also have "\<dots> = length xs - card (set ps)"
    using assms(2) by (simp add: card_Diff_subset)
  finally have "length (nths xs (- set ps)) = length xs - length ps"
    using assms(1) by (simp add: distinct_card)
  moreover have "length ps \<le> length xs"
    using assms card_mono [of "{..<length xs}" "set ps"] by (simp add: distinct_card)
  ultimately show ?thesis by simp
qed

lemma length_filter_names:
  assumes "distinct (map f xs)" and "distinct gs" and "set gs \<subseteq> f ` set xs"
  shows "length (filter (\<lambda>k. f k \<notin> set gs) xs) + length gs = length xs"
proof -
  have "length (filter (\<lambda>k. f k \<notin> set gs) xs) = length (filter (\<lambda>n. n \<notin> set gs) (map f xs))"
    by (simp add: filter_map comp_def)
  also have "\<dots> = card ({n. n \<notin> set gs} \<inter> set (map f xs))"
    using assms(1) by (rule distinct_length_filter)
  also have "{n. n \<notin> set gs} \<inter> set (map f xs) = f ` set xs - set gs" by auto
  also have "card (f ` set xs - set gs) = card (f ` set xs) - card (set gs)"
    using assms(3) by (simp add: card_Diff_subset)
  finally have "length (filter (\<lambda>k. f k \<notin> set gs) xs) = length xs - length gs"
    using assms(1,2) distinct_card [of "map f xs"] by (simp add: distinct_card)
  moreover have "length gs \<le> length xs"
    using assms card_mono [of "f ` set xs" "set gs"] distinct_card [of "map f xs"]
    by (simp add: distinct_card)
  ultimately show ?thesis by simp
qed

lemma split_counts_all_columns:
  assumes "data_format_checks X name = None"
    and "nd_dtype (asarray X) \<noteq> Complex128" and "1 \<le> nd_rows (asarray X)"
  shows "length (nd_cols (asarray X)) < min_value_cols \<Longrightarrow>
           split_groups_and_values X groups name min_value_cols check_X kwargs
             = Inl (ValueError (TooFewFeatures (length (nd_cols (asarray X))) min_value_cols))"
    and "min_value_cols \<le> length (nd_cols (asarray X)) \<Longrightarrow>
           check_array (initial_opts min_value_cols) X = Inr (asarray X)"
proof -
  from assms(1) have ns: "\<not> issparse X"
    by (auto simp: data_format_checks_def split: if_splits option.splits)
  show "length (nd_cols (asarray X)) < min_value_cols \<Longrightarrow>
           split_groups_and_values X groups name min_value_cols check_X kwargs
             = Inl (ValueError (TooFewFeatures (length (nd_cols (asarray X))) min_value_cols))"
    using assms ns by (simp add: split_groups_and_values_def initial_check_equation)
  show "min_value_cols \<le> length (nd_cols (asarray X)) \<Longrightarrow>
           check_array (initial_opts min_value_cols) X = Inr (asarray X)"
    using assms ns by (simp add: initial_check_equation)
qed

text \<open>
  C1. The parameter is called \<open>min_value_cols\<close>, and the claim reads it so: the first
  validation is to fail when fewer than that many columns are left outside the group
  specification. Line 14 passes it to the validator of the whole \<open>X\<close>, grouping
  columns included, before anything is split off. With \<open>min_value_cols = 3\<close> and the
  one grouping column \<open>name\<close>, the example table of three columns passes that call
  although only two columns are outside the group specification, and the split
  returns a value matrix of two columns, with \<open>check_X=False\<close> and, under the
  default options, with \<open>check_X=True\<close> as well. (NaN and infinite values do pass
  the first call, as the claim says.)
\<close>

theorem initial_validation_ignores_groups:
  "check_array (initial_opts 3) (DataFrame ex_frame) = Inr (frame_values ex_frame)
   \<and> length (filter (\<lambda>k. cname k \<notin> set [LStr ''name'']) (fcols ex_frame)) < 3
   \<and> split_groups_and_values (DataFrame ex_frame) [LStr ''name''] ''est'' 3 False default_opts
       = Inr (\<lparr>findex = [LInt 0, LInt 1, LInt 2],
               fcols = [\<lparr>cname = LStr ''name'', ctype = Object,
                         cells = [CStr ''Swen'', CStr ''Victor'', CStr ''Alex'']\<rparr>]\<rparr>,
              \<lparr>nd_dtype = Float64, nd_rows = 3,
                 nd_cols = [[CNum (182/100), CNum (185/100), CNum (180/100)],
                            [CNum 42, CNum 44, CNum 45]]\<rparr>)
   \<and> split_groups_and_values (DataFrame ex_frame) [LStr ''name''] ''est'' 3 True default_opts
       = Inr (\<lparr>findex = [LInt 0, LInt 1, LInt 2],
               fcols = [\<lparr>cname = LStr ''name'', ctype = Object,
                         cells = [CStr ''Swen'', CStr ''Victor'', CStr ''Alex'']\<rparr>]\<rparr>,
              \<lparr>nd_dtype = Float64, nd_rows = 3,
                 nd_cols = [[CNum (182/100), CNum (185/100), CNum (180/100)],
                            [CNum 42, CNum 44, CNum 45]]\<rparr>)"
  by code_simp

text \<open>
  C3, as stated, fails: on the 1 by 2 example array with \<open>groups = [0, 0]\<close> the split
  succeeds, \<open>np.delete\<close> removes column 0 once, and the value matrix has one column,
  not \<open>2 - len(groups) = 0\<close>.
\<close>

theorem repeated_group_is_dropped_once:
  "split_groups_and_values (NdArray ex_array) [LInt 0, LInt 0] ''est'' 1 True default_opts
     = Inr (\<lparr>findex = [LInt 0],
             fcols = [\<lparr>cname = LInt 0, ctype = Float64, cells = [CNum 1]\<rparr>,
                      \<lparr>cname = LInt 1, ctype = Float64, cells = [CNum 1]\<rparr>]\<rparr>,
            \<lparr>nd_dtype = Float64, nd_rows = 1, nd_cols = [[CNum 2]]\<rparr>)
   \<and> length (nd_cols \<lparr>nd_dtype = Float64, nd_rows = 1, nd_cols = [[CNum 2]]\<rparr>)
       \<noteq> length (nd_cols ex_array) - length [LInt 0, LInt (0::int)]"
  by code_simp

text \<open>
  C3, as amended. Whenever the split succeeds, the grouping table has as many rows as
  \<open>T\<close> and the fresh index 0, ..., n-1, whatever the index of \<open>T\<close> was, and the value
  matrix has the rows of \<open>T\<close> too. When the entries of \<open>G\<close> name pairwise different
  columns, the value matrix has \<open>|columns(T)| - |G|\<close> columns: for a DataFrame with
  pairwise distinct labels and a \<open>G\<close> without repetition, for an array when the
  positions that \<open>G\<close> resolves to (negative entries counted from the end) are distinct.
  The count is stated as a sum, so that no truncated subtraction hides in it.
\<close>

theorem split_shapes:
  assumes "split_groups_and_values X groups name m check_X kwargs = Inr (X_group, X_value)"
  shows "n_rows X_group = nd_rows (asarray X)
       \<and> findex X_group = range_index (nd_rows (asarray X))
       \<and> nd_rows X_value = nd_rows (asarray X)
       \<and> (\<forall>f. X = DataFrame f \<longrightarrow> distinct (frame_columns f) \<longrightarrow> distinct groups \<longrightarrow>
             length (nd_cols X_value) + length groups = length (fcols f))
       \<and> (\<forall>a ps. X = NdArray a \<longrightarrow> positions (length (nd_cols a)) groups = Some ps \<longrightarrow>
             distinct ps \<longrightarrow> length (nd_cols X_value) + length groups = length (nd_cols a))"
proof -
  from split_success [OF assms] obtain G0 V0 where
    p: "partition_columns X groups = Inr (G0, V0)" and g: "X_group = reset_index G0"
    and r: "nd_rows X_value = nd_rows V0" and c: "length (nd_cols X_value) = length (nd_cols V0)"
    by blast
  show ?thesis
  proof (cases X)
    case (DataFrame f)
    from partition_frame [OF p [unfolded DataFrame]] have
      G0: "G0 = take_columns groups f" and V0: "V0 = frame_values (remove_columns groups f)"
      and sub: "set groups \<subseteq> set (frame_columns f)" by simp_all
    have "distinct (frame_columns f) \<longrightarrow> distinct groups \<longrightarrow>
             length (nd_cols X_value) + length groups = length (fcols f)"
    proof (intro impI)
      assume "distinct (frame_columns f)" and "distinct groups"
      with sub have "length (filter (\<lambda>k. cname k \<notin> set groups) (fcols f)) + length groups
          = length (fcols f)"
        unfolding frame_columns_def by (intro length_filter_names) simp_all
      then show "length (nd_cols X_value) + length groups = length (fcols f)"
        by (simp add: c V0 frame_values_def remove_columns_def)
    qed
    then show ?thesis
      using DataFrame g r
      by (simp add: G0 V0 n_rows_def reset_index_def range_index_def take_columns_def
          frame_values_def remove_columns_def)
  next
    case (NdArray a)
    from partition_array [OF p [unfolded NdArray]] obtain ps where
      ps: "positions (length (nd_cols a)) groups = Some ps"
      and G0: "G0 = frame_of_columns (nd_dtype a) (nd_rows a) (map (\<lambda>p. nd_cols a ! p) ps)"
      and V0: "V0 = np_delete a ps" by blast
    have "distinct ps \<longrightarrow> length (nd_cols X_value) + length groups = length (nd_cols a)"
    proof
      assume "distinct ps"
      with positions_props [OF ps] length_nths_compl [of ps "nd_cols a"]
      show "length (nd_cols X_value) + length groups = length (nd_cols a)"
        by (simp add: c V0 np_delete_def)
    qed
    then show ?thesis
      using NdArray g r ps
      by (simp add: G0 V0 n_rows_def reset_index_def range_index_def frame_of_columns_def
          np_delete_def)
  next
    case (SparseMatrix a)
    with p show ?thesis by simp
  qed
qed


theorem split_shapes_witness:
  "split_groups_and_values (DataFrame ex_grouped_frame) [LStr ''town'', LStr ''year''] ''est'' 1 True
       default_opts
     = Inr (\<lparr>findex = [LInt 0, LInt 1],
             fcols = [\<lparr>cname = LStr ''town'', ctype = Object, cells = [CStr ''a'', CStr ''b'']\<rparr>,
                      \<lparr>cname = LStr ''year'', ctype = Int64, cells = [CNum 1, CNum 2]\<rparr>]\<rparr>,
            \<lparr>nd_dtype = Float64, nd_rows = 2, nd_cols = [[CNum 3, CNum 4]]\<rparr>)
   \<and> findex ex_grouped_frame = [LInt 10, LInt 20]
   \<and> distinct (frame_columns ex_grouped_frame)
   \<and> distinct [LStr ''town'', LStr ''year'']
   \<and> length (nd_cols \<lparr>nd_dtype = Float64, nd_rows = 2, nd_cols = [[CNum 3, CNum 4]]\<rparr>)
        + length [LStr ''town'', LStr ''year'']
       = length (fcols ex_grouped_frame)"
proof -
  let ?G = "\<lparr>findex = [LInt 0, LInt 1],
             fcols = [\<lparr>cname = LStr ''town'', ctype = Object, cells = [CStr ''a'', CStr ''b'']\<rparr>,
                      \<lparr>cname = LStr ''year'', ctype = Int64, cells = [CNum 1, CNum 2]\<rparr>]\<rparr>"
  let ?V = "\<lparr>nd_dtype = Float64, nd_rows = 2, nd_cols = [[CNum 3, CNum 4]]\<rparr>"
  have e: "split_groups_and_values (DataFrame ex_grouped_frame) [LStr ''town'', LStr ''year'']
             ''est'' 1 True default_opts = Inr (?G, ?V)"
    by code_simp
  have i: "findex ex_grouped_frame = [LInt 10, LInt 20]" by (simp add: ex_grouped_frame_def)
  have d: "distinct (frame_columns ex_grouped_frame)"
    by (simp add: ex_grouped_frame_def frame_columns_def)
  have g: "distinct [LStr ''town'', LStr ''year'']" by simp
  from split_shapes [OF e] d g
  have "length (nd_cols ?V) + length [LStr ''town'', LStr ''year'']
          = length (fcols ex_grouped_frame)" by blast
  with e i d g show ?thesis by blast
qed

section \<open>Splitting: missing grouping keys\<close>

lemma number_iff: "matches TNumber d \<longleftrightarrow> d \<noteq> Object"
  by (cases d) simp_all

lemma common_dtype_not_object: "a \<noteq> Object \<Longrightarrow> b \<noteq> Object \<Longrightarrow> common_dtype a b \<noteq> Object"
  by (simp add: common_dtype_def)

lemma foldl_common_not_object:
  "d \<noteq> Object \<Longrightarrow> Object \<notin> set ds \<Longrightarrow> foldl common_dtype d ds \<noteq> Object"
  by (induction ds arbitrary: d) (auto simp: common_dtype_def)

lemma numbers_interleave:
  "Object \<notin> set ds \<Longrightarrow> interleaved_dtype ds \<noteq> Object"
proof (cases ds)
  case Nil
  then show ?thesis by simp
next
  case (Cons d rest)
  assume "Object \<notin> set ds"
  with Cons have "d \<noteq> Object" and "Object \<notin> set rest" by auto
  then have "foldl common_dtype d rest \<noteq> Object" by (rule foldl_common_not_object)
  with Cons show ?thesis by simp
qed

lemma check_dense_value_error:
  assumes "check_dense opts a = Inl e" and "nd_dtype a \<noteq> Object \<or> \<not> co_dtype_numeric opts"
  shows "\<exists>m. e = ValueError m"
  using assms
  by (auto simp: check_dense_def assert_all_finite_def split: if_splits option.splits)

lemma select_number: "select_dtypes [TNumber] [] G = Inr (G\<lparr>fcols := number_columns G\<rparr>)"
  by (simp add: select_dtypes_def dtype_selected_def number_columns_def del: matches.simps)

lemma select_other:
  "select_dtypes [] [TNumber] G
     = Inr (G\<lparr>fcols := filter (\<lambda>k. \<not> matches TNumber (ctype k)) (fcols G)\<rparr>)"
  by (simp add: select_dtypes_def dtype_selected_def del: matches.simps)

lemma isnull_other: 
  "isnull_any (G\<lparr>fcols := filter (\<lambda>k. \<not> matches TNumber (ctype k)) (fcols G)\<rparr>) = other_null G"
  by (auto simp: isnull_any_def other_null_def list_ex_iff simp del: matches.simps)

lemma check_grouping_equation:
  "check_grouping_columns kwargs G =
     (case (if number_columns G \<noteq> []
            then check_array kwargs (DataFrame (G\<lparr>fcols := number_columns G\<rparr>))
            else Inr (frame_values (G\<lparr>fcols := number_columns G\<rparr>))) of
        Inl e \<Rightarrow> Inl e
      | Inr b \<Rightarrow> if other_null G then Inl (ValueError XHasNaN) else Inr (reset_index G))"
  by (simp add: check_grouping_columns_def select_number select_other isnull_other
      del: matches.simps split: sum.splits)

lemma number_check_value_error:
  assumes "check_array kwargs (DataFrame (G\<lparr>fcols := number_columns G\<rparr>)) = Inl e"
    and "number_columns G \<noteq> []"
  shows "\<exists>m. e = ValueError m"
proof -
  have "Object \<notin> set (map ctype (number_columns G))"
    by (auto simp: number_columns_def number_iff)
  then have "interleaved_dtype (map ctype (number_columns G)) \<noteq> Object"
    by (rule numbers_interleave)
  then have "nd_dtype (frame_values (G\<lparr>fcols := number_columns G\<rparr>)) \<noteq> Object"
    by (simp add: frame_values_def)
  with assms(1) show ?thesis
    by (auto simp: check_array_def dest: check_dense_value_error)
qed

lemma check_grouping_null:
  assumes "other_null G"
  shows "\<exists>m. check_grouping_columns kwargs G = Inl (ValueError m)"
proof (cases "number_columns G \<noteq> []")
  case True
  show ?thesis
  proof (cases "check_array kwargs (DataFrame (G\<lparr>fcols := number_columns G\<rparr>))")
    case (Inl e)
    with number_check_value_error [OF Inl True] True show ?thesis
      by (auto simp: check_grouping_equation)
  next
    case (Inr b)
    with True assms show ?thesis by (simp add: check_grouping_equation)
  qed
next
  case False
  with assms show ?thesis by (simp add: check_grouping_equation)
qed

lemma data_format_value_error: "data_format_checks X name = Some e \<Longrightarrow> \<exists>m. e = ValueError m"
  by (cases X) (auto simp: data_format_checks_def split: if_splits option.splits)

lemma data_format_not_sparse: "data_format_checks X name = None \<Longrightarrow> \<not> issparse X"
  by (auto simp: data_format_checks_def split: if_splits option.splits)

lemma initial_check_value_error:
  "\<not> issparse X \<Longrightarrow> check_array (initial_opts m) X = Inl e \<Longrightarrow> \<exists>v. e = ValueError v"
  by (auto simp: check_array_def initial_opts_def dest!: check_dense_value_error)

lemma partition_error: "partition_columns X groups = Inl e \<Longrightarrow> (\<exists>ls. e = KeyError ls) \<or> e = IndexError"
  by (cases X) (auto simp: pd_loc_def pd_drop_def split: sum.splits if_splits option.splits)

lemma except_value_error:
  "partition_columns X groups = Inl e \<Longrightarrow> except_key_index groups e = ValueError (CouldNotDropGroups groups)"
  by (auto dest: partition_error)

lemma position_in_positions:
  "positions n gs = Some ps \<Longrightarrow> g \<in> set gs \<Longrightarrow> position n g = Some p \<Longrightarrow> p \<in> set ps"
  by (induction gs arbitrary: ps) (auto split: option.splits)

lemma positions_None:
  "positions n gs = Some ps \<Longrightarrow> g \<in> set gs \<Longrightarrow> position n g \<noteq> None"
  by (induction gs arbitrary: ps) (auto split: option.splits)

lemma set_fcols_frame_of_columns:
  "c \<in> set cs \<Longrightarrow> \<exists>k \<in> set (fcols (frame_of_columns d n cs)). ctype k = d \<and> cells k = c"
  by (force simp: frame_of_columns_def enumerate_eq_zip in_set_zip in_set_conv_nth)

lemma partition_keeps_missing:
  assumes "group_column_missing X groups" and "partition_columns X groups = Inr (G0, V0)"
  shows "other_null G0"
proof (cases X)
  case (DataFrame f)
  from assms(1) obtain k where k: "k \<in> set (fcols f)" "cname k \<in> set groups"
      "\<not> matches TNumber (ctype k)" "list_ex is_null (cells k)"
    by (auto simp: DataFrame list_ex_iff simp del: matches.simps)
  from partition_frame [OF assms(2) [unfolded DataFrame]] have "G0 = take_columns groups f" by simp
  with k(1,2) have "k \<in> set (fcols G0)" by (auto simp: take_columns_def)
  with k(3,4) show ?thesis unfolding other_null_def list_ex_iff by blast
next
  case (NdArray a)
  from partition_array [OF assms(2) [unfolded NdArray]] obtain ps where
    ps: "positions (length (nd_cols a)) groups = Some ps"
    and G0: "G0 = frame_of_columns (nd_dtype a) (nd_rows a) (map (\<lambda>p. nd_cols a ! p) ps)" by blast
  from assms(1) obtain g p where g: "g \<in> set groups" "position (length (nd_cols a)) g = Some p"
      "list_ex is_null (nd_cols a ! p)" and d: "\<not> matches TNumber (nd_dtype a)"
    by (auto simp: NdArray list_ex_iff simp del: matches.simps split: option.splits)
  from position_in_positions [OF ps g(1,2)] have "nd_cols a ! p \<in> set (map (\<lambda>p. nd_cols a ! p) ps)"
    by simp
  from set_fcols_frame_of_columns [OF this, of "nd_dtype a" "nd_rows a"] G0 obtain k where
    k: "k \<in> set (fcols G0)" "ctype k = nd_dtype a" "cells k = nd_cols a ! p" by blast
  from k(2,3) g(3) d have "\<not> matches TNumber (ctype k) \<and> list_ex is_null (cells k)" by simp
  with k(1) show ?thesis unfolding other_null_def list_ex_iff by blast
next
  case (SparseMatrix a)
  with assms(1) show ?thesis by simp
qed

text \<open>
  C4. If a grouping column that is not of a number dtype holds a missing value, the
  split raises ValueError, the one class of every validation failure in the source,
  whatever the number-typed grouping columns hold and whatever options are passed.
  The check of the grouping frame is the asymmetric one: its outcome is that of the
  generic validator on the number-typed columns alone (skipped when there is none),
  under the forwarded options, followed by a scan of the other columns for nulls and
  for nothing else; so once the number-typed columns pass, the error is "X has NaN
  values".
\<close>

theorem missing_group_value_raises:
  assumes "group_column_missing X groups"
  shows "(\<exists>m. split_groups_and_values X groups name min_value_cols check_X kwargs
                = Inl (ValueError m))
       \<and> check_grouping_columns kwargs G =
           (case (if number_columns G \<noteq> []
                  then check_array kwargs (DataFrame (G\<lparr>fcols := number_columns G\<rparr>))
                  else Inr (frame_values (G\<lparr>fcols := number_columns G\<rparr>))) of
              Inl e \<Rightarrow> Inl e
            | Inr b \<Rightarrow> if other_null G then Inl (ValueError XHasNaN) else Inr (reset_index G))
       \<and> (data_format_checks X name = None
            \<and> check_array (initial_opts min_value_cols) X = Inr checked
            \<and> partition_columns X groups = Inr (G0, V0)
            \<and> (number_columns G0 = []
                 \<or> check_array kwargs (DataFrame (G0\<lparr>fcols := number_columns G0\<rparr>)) = Inr passed)
          \<longrightarrow> split_groups_and_values X groups name min_value_cols check_X kwargs
                = Inl (ValueError XHasNaN))"
proof (intro conjI impI)
  assume stages: "data_format_checks X name = None
            \<and> check_array (initial_opts min_value_cols) X = Inr checked
            \<and> partition_columns X groups = Inr (G0, V0)
            \<and> (number_columns G0 = []
                 \<or> check_array kwargs (DataFrame (G0\<lparr>fcols := number_columns G0\<rparr>)) = Inr passed)"
  then have p: "partition_columns X groups = Inr (G0, V0)" by simp
  from partition_keeps_missing [OF assms p] have "other_null G0" .
  with stages have "check_grouping_columns kwargs G0 = Inl (ValueError XHasNaN)"
    by (auto simp: check_grouping_equation)
  with stages show "split_groups_and_values X groups name min_value_cols check_X kwargs
                = Inl (ValueError XHasNaN)"
    by (simp add: split_groups_and_values_def)
next
  show "\<exists>m. split_groups_and_values X groups name min_value_cols check_X kwargs
                = Inl (ValueError m)"
  proof (cases "data_format_checks X name")
    case (Some e)
    with data_format_value_error [OF Some] show ?thesis
      by (auto simp: split_groups_and_values_def)
  next
    case None
    note dfc = None
    then have ns: "\<not> issparse X" by (rule data_format_not_sparse)
    show ?thesis
    proof (cases "check_array (initial_opts min_value_cols) X")
      case (Inl e)
      with initial_check_value_error [OF ns Inl] dfc show ?thesis
        by (auto simp: split_groups_and_values_def)
    next
      case (Inr b)
      note ini = Inr
      show ?thesis
      proof (cases "partition_columns X groups")
        case (Inl e)
        with except_value_error [OF Inl] dfc ini show ?thesis
          by (simp add: split_groups_and_values_def)
      next
        case (Inr GV)
        obtain G0 V0 where GV: "GV = (G0, V0)" by (cases GV)
        from partition_keeps_missing [OF assms Inr [unfolded GV]] have "other_null G0" .
        from check_grouping_null [OF this, of kwargs] obtain m where
          "check_grouping_columns kwargs G0 = Inl (ValueError m)" by blast
        with dfc ini Inr GV show ?thesis by (simp add: split_groups_and_values_def)
      qed
    qed
  qed
next
  show "check_grouping_columns kwargs G =
           (case (if number_columns G \<noteq> []
                  then check_array kwargs (DataFrame (G\<lparr>fcols := number_columns G\<rparr>))
                  else Inr (frame_values (G\<lparr>fcols := number_columns G\<rparr>))) of
              Inl e \<Rightarrow> Inl e
            | Inr b \<Rightarrow> if other_null G then Inl (ValueError XHasNaN) else Inr (reset_index G))"
    by (rule check_grouping_equation)
qed

theorem missing_group_value_raises_witness:
  "group_column_missing (DataFrame ex_missing_frame) [LStr ''town'', LStr ''year'']
   \<and> \<not> list_ex is_null [CNum 1, CNum 2]
   \<and> data_format_checks (DataFrame ex_missing_frame) ''est'' = None
   \<and> check_array (initial_opts 1) (DataFrame ex_missing_frame) = Inr (frame_values ex_missing_frame)
   \<and> partition_columns (DataFrame ex_missing_frame) [LStr ''town'', LStr ''year'']
       = Inr (take_columns [LStr ''town'', LStr ''year''] ex_missing_frame,
              \<lparr>nd_dtype = Float64, nd_rows = 2, nd_cols = [[CNum 3, CNum 4]]\<rparr>)
   \<and> check_array default_opts
        (DataFrame (take_columns [LStr ''town'', LStr ''year''] ex_missing_frame
           \<lparr>fcols := number_columns (take_columns [LStr ''town'', LStr ''year''] ex_missing_frame)\<rparr>))
       = Inr \<lparr>nd_dtype = Int64, nd_rows = 2, nd_cols = [[CNum 1, CNum 2]]\<rparr>
   \<and> split_groups_and_values (DataFrame ex_missing_frame) [LStr ''town'', LStr ''year''] ''est'' 1 True
        default_opts = Inl (ValueError XHasNaN)"
proof -
  let ?X = "DataFrame ex_missing_frame"
  let ?groups = "[LStr ''town'', LStr ''year'']"
  let ?G0 = "take_columns ?groups ex_missing_frame"
  let ?V0 = "\<lparr>nd_dtype = Float64, nd_rows = 2, nd_cols = [[CNum 3, CNum 4]]\<rparr>"
  let ?passed = "\<lparr>nd_dtype = Int64, nd_rows = 2, nd_cols = [[CNum 1, CNum 2]]\<rparr>"
  have h: "group_column_missing ?X ?groups"
    by (simp add: ex_missing_frame_def is_null_def)
  have p: "\<not> list_ex is_null [CNum 1, CNum 2]" by (simp add: is_null_def)
  have d: "data_format_checks ?X ''est'' = None" by (simp add: data_format_checks_def)
  have i: "check_array (initial_opts 1) ?X = Inr (frame_values ex_missing_frame)"
    by code_simp
  have s: "partition_columns ?X ?groups = Inr (?G0, ?V0)" by code_simp
  have n: "check_array default_opts (DataFrame (?G0\<lparr>fcols := number_columns ?G0\<rparr>)) = Inr ?passed"
    by code_simp
  from missing_group_value_raises [OF h, where name = "''est''" and min_value_cols = 1
      and check_X = True and kwargs = default_opts and checked = "frame_values ex_missing_frame"
      and ?G0.0 = ?G0 and ?V0.0 = ?V0 and passed = ?passed] d i s n
  have "split_groups_and_values ?X ?groups ''est'' 1 True default_opts = Inl (ValueError XHasNaN)"
    by blast
  with h p d i s n show ?thesis by blast
qed

section \<open>Splitting: the data format checks\<close>

lemma complex_array_rejected_first:
  "nd_dtype a = Complex128 \<Longrightarrow>
   split_groups_and_values (NdArray a) groups name min_value_cols check_X kwargs
     = Inl (ValueError ComplexNotSupported)"
  by (simp add: split_groups_and_values_def data_format_checks_def)

lemma sparse_rejected_first:
  "nd_dtype a \<noteq> Complex128 \<Longrightarrow>
   split_groups_and_values (SparseMatrix a) groups name min_value_cols check_X kwargs
     = Inl (ValueError (SparseNotSupported name))"
  by (simp add: split_groups_and_values_def data_format_checks_def)

lemma complex_frame_rejected_by_validator:
  "interleaved_dtype (map ctype (fcols f)) = Complex128 \<Longrightarrow>
   split_groups_and_values (DataFrame f) groups name min_value_cols check_X kwargs
     = Inl (ValueError ComplexNotSupported)"
  by (simp add: split_groups_and_values_def data_format_checks_def initial_check_equation
      frame_values_def)

text \<open>
  C5. The two format checks do run first and whatever \<open>check_X\<close> is, and they reject
  every array of complex dtype and every sparse matrix (the three lemmas above). But
  the complex check reads \<open>X.dtype\<close>, which a DataFrame does not have, and the first
  validator call sees a DataFrame as one array: next to a text column a complex column
  gives an object array, which it accepts. So a table with a text grouping column and a
  complex value column is split without any error when \<open>check_X=False\<close>, and the
  value matrix that comes back is complex.
\<close>

theorem complex_column_is_not_rejected:
  "data_format_checks (DataFrame ex_complex_frame) ''est'' = None
   \<and> split_groups_and_values (DataFrame ex_complex_frame) [LStr ''g''] ''est'' 1 False default_opts
       = Inr (\<lparr>findex = [LInt 0, LInt 1],
               fcols = [\<lparr>cname = LStr ''g'', ctype = Object, cells = [CStr ''a'', CStr ''b'']\<rparr>]\<rparr>,
              \<lparr>nd_dtype = Complex128, nd_rows = 2, nd_cols = [[CComplex 1 2, CComplex 3 4]]\<rparr>)"
  by code_simp

end
